theory Spec2Isabelle
  imports Complex_Main
begin

section \<open>JavaScript values\<close>

text \<open>
  The recipe scraper of \<^verbatim>\<open>functions/src/index.ts\<close> works on untyped JavaScript values:
  whatever \<^verbatim>\<open>JSON.parse\<close> returns, plus \<^verbatim>\<open>undefined\<close> for a missing property.
  A \<open>JObj\<close> lists the own properties of an object (each key once, as a parsed object has
  them). A finite number is the rational that the double is, \<open>-0\<close> being \<open>0\<close>; the two
  infinities are \<open>JInfinity\<close>, \<open>True\<close> for the negative one. No value that the scraper
  reads or returns is NaN: \<^verbatim>\<open>JSON.parse\<close> yields none and every result of \<^verbatim>\<open>parseInt\<close> is
  tested before it is stored. A \<open>char\<close> stands for one UTF-16 code unit below 256.
\<close>

datatype jsval =
    JUndefined
  | JNull
  | JBool bool
  | JNum rat
  | JInfinity bool
  | JStr string
  | JArr "jsval list"
  | JObj "(string \<times> jsval) list"

datatype js_error =
    Error string
  | TypeError
  | AxiosError "string option" "nat option"

text \<open>\<^verbatim>\<open>Boolean(v)\<close>, the test of \<^verbatim>\<open>if (v)\<close>, \<^verbatim>\<open>!v\<close>, \<^verbatim>\<open>a && b\<close> and \<^verbatim>\<open>a || b\<close>.\<close>

fun truthy :: "jsval \<Rightarrow> bool" where
  "truthy JUndefined = False"
| "truthy JNull = False"
| "truthy (JBool b) = b"
| "truthy (JNum n) = (n \<noteq> 0)"
| "truthy (JInfinity negative) = True"
| "truthy (JStr s) = (s \<noteq> [])"
| "truthy (JArr xs) = True"
| "truthy (JObj kvs) = True"

definition js_or :: "jsval \<Rightarrow> jsval \<Rightarrow> jsval" where
  "js_or a b = (if truthy a then a else b)"

fun nullish :: "jsval \<Rightarrow> bool" where
  "nullish JUndefined = True"
| "nullish JNull = True"
| "nullish v = False"

text \<open>
  \<^verbatim>\<open>v[k]\<close> for a value that is neither \<^verbatim>\<open>null\<close> nor \<^verbatim>\<open>undefined\<close> and a key \<open>k\<close> that no
  prototype defines (every key the scraper reads is such a key): the own property of an
  object, \<^verbatim>\<open>undefined\<close> on a primitive or an array. On \<^verbatim>\<open>null\<close> and \<^verbatim>\<open>undefined\<close> the
  access throws a TypeError: a function that reads a property of a value that may be
  one of them tests \<open>nullish\<close> first and returns \<open>Inl TypeError\<close>.
\<close>

fun propOf :: "jsval \<Rightarrow> string \<Rightarrow> jsval" where
  "propOf (JObj kvs) k = (case map_of kvs k of None \<Rightarrow> JUndefined | Some v \<Rightarrow> v)"
| "propOf v k = JUndefined"

fun isString :: "jsval \<Rightarrow> bool" where
  "isString (JStr s) = True"
| "isString v = False"

section \<open>Strings\<close>

text \<open>White space of \<^verbatim>\<open>String.prototype.trim\<close>, of \<^verbatim>\<open>\s\<close> and of \<^verbatim>\<open>parseInt\<close>, below 256.\<close>

definition isWhiteSpace :: "char \<Rightarrow> bool" where
  "isWhiteSpace c = (c \<in> set [CHR 0x09, CHR 0x0A, CHR 0x0B, CHR 0x0C, CHR 0x0D, CHR 0x20, CHR 0xA0])"

definition isDigit :: "char \<Rightarrow> bool" where
  "isDigit c = (c \<in> set ''0123456789'')"

definition trim :: "string \<Rightarrow> string" where
  "trim s = rev (dropWhile isWhiteSpace (rev (dropWhile isWhiteSpace s)))"

text \<open>The value of one digit in the radix 10 or 16, if it is one.\<close>

definition decDigits :: "(char \<times> nat) list" where
  "decDigits =
     [(CHR ''0'', 0), (CHR ''1'', 1), (CHR ''2'', 2), (CHR ''3'', 3), (CHR ''4'', 4),
      (CHR ''5'', 5), (CHR ''6'', 6), (CHR ''7'', 7), (CHR ''8'', 8), (CHR ''9'', 9)]"

definition hexLetters :: "(char \<times> nat) list" where
  "hexLetters =
     [(CHR ''a'', 10), (CHR ''b'', 11), (CHR ''c'', 12), (CHR ''d'', 13), (CHR ''e'', 14),
      (CHR ''f'', 15), (CHR ''A'', 10), (CHR ''B'', 11), (CHR ''C'', 12), (CHR ''D'', 13),
      (CHR ''E'', 14), (CHR ''F'', 15)]"

definition digitValue :: "nat \<Rightarrow> char \<Rightarrow> nat option" where
  "digitValue radix c =
     (case map_of decDigits c of
        Some d \<Rightarrow> Some d
      | None \<Rightarrow> if radix = 16 then map_of hexLetters c else None)"

definition digitsValue :: "nat \<Rightarrow> string \<Rightarrow> nat" where
  "digitsValue radix ds = foldl (\<lambda>acc c. acc * radix + the (digitValue radix c)) 0 ds"

text \<open>
  The numbers that the scraper computes itself are results of \<^verbatim>\<open>parseInt\<close>: NaN, a double
  that is an integer, or an infinity (\<open>True\<close> for the negative one).
\<close>

datatype number = NaN | Finite int | Infinity bool

fun bitLength :: "nat \<Rightarrow> nat" where
  "bitLength n = (if n = 0 then 0 else Suc (bitLength (n div 2)))"

declare bitLength.simps [simp del]

text \<open>
  The double nearest to a natural number, ties to the even significand, \<open>None\<close> when the
  rounding leaves the range of the doubles (the result is then infinite). Below \<open>2^53\<close>
  every natural number is a double.
\<close>

definition toDouble :: "nat \<Rightarrow> nat option" where
  "toDouble n =
     (if n < 2 ^ 53 then Some n
      else
        (let e = bitLength n - 53;
             q = n div 2 ^ e;
             r = n mod 2 ^ e;
             half = 2 ^ (e - 1);
             m = (if half < r \<or> (r = half \<and> odd q) then q + 1 else q) * 2 ^ e
         in if m < 2 ^ 1024 then Some m else None))"

text \<open>
  \<^verbatim>\<open>parseInt(s)\<close> with no radix: leading white space, a sign, the prefix \<^verbatim>\<open>0x\<close> for
  radix 16, then the longest run of digits, NaN when the run is empty; the result is
  the double nearest to the integer that the digits write (V8 rounds correctly; for a
  decimal run of more than 20 digits ECMAScript lets an implementation round a little
  differently).
\<close>

definition parseInt :: "string \<Rightarrow> number" where
  "parseInt s =
     (let s1 = dropWhile isWhiteSpace s;
          neg = (take 1 s1 = ''-'');
          s2 = (if take 1 s1 = ''-'' \<or> take 1 s1 = ''+'' then drop 1 s1 else s1);
          hex = (take 2 s2 = ''0x'' \<or> take 2 s2 = ''0X'');
          radix = (if hex then 16 else 10);
          s3 = (if hex then drop 2 s2 else s2);
          z = takeWhile (\<lambda>c. digitValue radix c \<noteq> None) s3
      in if z = [] then NaN
         else case toDouble (digitsValue radix z) of
           None \<Rightarrow> Infinity neg
         | Some m \<Rightarrow> Finite ((if neg then - 1 else 1) * int m))"

text \<open>\<^verbatim>\<open>parseInt(undefined)\<close> reads the string \<^verbatim>\<open>"undefined"\<close>.\<close>

definition parseIntOpt :: "string option \<Rightarrow> number" where
  "parseIntOpt v = (case v of None \<Rightarrow> parseInt ''undefined'' | Some s \<Rightarrow> parseInt s)"

fun natToString :: "nat \<Rightarrow> string" where
  "natToString n =
     (if n < 10 then [''0123456789'' ! n]
      else natToString (n div 10) @ [''0123456789'' ! (n mod 10)])"

text \<open>
  A double of \<open>2^53\<close> or more is printed with the shortest digits that read back as the
  same double, in exponent notation from \<open>10^21\<close> on. That rendering is the runtime's and
  is not modelled: \<open>bigNumberToString\<close> is some fixed string for each such number, of
  which nothing is known.
\<close>

definition bigNumberToString :: "int \<Rightarrow> string" where
  "bigNumberToString = undefined"

text \<open>
  A number in a template literal, \<^verbatim>\<open>`${n}`\<close>: an integer below \<open>2^53\<close> is printed with all
  its digits.
\<close>

definition numberToString :: "number \<Rightarrow> string" where
  "numberToString n =
     (case n of
        NaN \<Rightarrow> ''NaN''
      | Infinity negative \<Rightarrow> (if negative then ''-Infinity'' else ''Infinity'')
      | Finite i \<Rightarrow>
          if \<bar>i\<bar> < 2 ^ 53
          then (if i < 0 then ''-'' @ natToString (nat (- i)) else natToString (nat i))
          else bigNumberToString i)"

text \<open>The test of a number in \<^verbatim>\<open>if (n)\<close> and \<^verbatim>\<open>a && b\<close>: NaN and 0 are falsy.\<close>

definition numTruthy :: "number \<Rightarrow> bool" where
  "numTruthy n = (n \<noteq> NaN \<and> n \<noteq> Finite 0)"

text \<open>
  One optional group \<^verbatim>\<open>(?:(\d+)X)?\<close> at the head of \<open>s\<close>: the captured digits and the
  rest. The group is greedy and takes part in the match exactly when the whole run of
  digits is not empty and the letter follows it (a shorter run is followed by a digit).
\<close>

definition optGroup :: "char \<Rightarrow> string \<Rightarrow> string option \<times> string" where
  "optGroup x s =
     (let ds = takeWhile isDigit s; r = dropWhile isDigit s
      in if ds \<noteq> [] \<and> take 1 r = [x] then (Some ds, drop 1 r) else (None, s))"

text \<open>
  \<^verbatim>\<open>duration.match(/PT(?:(\d+)H)?(?:(\d+)M)?/)\<close>: the pattern is not anchored and both
  groups are optional, so the match is at the first \<^verbatim>\<open>PT\<close> of the string; the result is
  the pair of captures, \<open>None\<close> when the string has no \<^verbatim>\<open>PT\<close>.
\<close>

fun matchDuration :: "string \<Rightarrow> (string option \<times> string option) option" where
  "matchDuration [] = None"
| "matchDuration (c # cs) =
     (if c = CHR ''P'' \<and> take 1 cs = ''T''
      then (let (g1, r1) = optGroup (CHR ''H'') (drop 1 cs);
                (g2, r2) = optGroup (CHR ''M'') r1
            in Some (g1, g2))
      else matchDuration cs)"

text \<open>\<^verbatim>\<open>instruction.replace(/^\d+\.\s*/, '')\<close>.\<close>

definition stripOrdinal :: "string \<Rightarrow> string" where
  "stripOrdinal s =
     (let ds = takeWhile isDigit s; r = dropWhile isDigit s
      in if ds \<noteq> [] \<and> take 1 r = ''.'' then dropWhile isWhiteSpace (drop 1 r) else s)"

section \<open>The field helpers of parseJsonLdRecipe\<close>

definition extractText :: "jsval \<Rightarrow> jsval" where
  "extractText v =
     (if isString v then v
      else if truthy v \<and> truthy (propOf v ''text'') then propOf v ''text''
      else if truthy v \<and> truthy (propOf v ''@value'') then propOf v ''@value''
      else JStr [])"

definition extractArray :: "jsval \<Rightarrow> jsval list" where
  "extractArray v =
     (if \<not> truthy v then []
      else case v of
        JArr xs \<Rightarrow> filter truthy (map extractText xs)
      | _ \<Rightarrow> filter truthy [extractText v])"

definition extractTime :: "jsval \<Rightarrow> jsval" where
  "extractTime duration =
     (if \<not> truthy duration then JStr []
      else case duration of
        JStr s \<Rightarrow>
          (case matchDuration s of
             Some (g1, g2) \<Rightarrow>
               (let hours = (case g1 of Some d \<Rightarrow> parseInt d | None \<Rightarrow> Finite 0);
                    minutes = (case g2 of Some d \<Rightarrow> parseInt d | None \<Rightarrow> Finite 0)
                in if numTruthy hours \<and> numTruthy minutes
                   then JStr (numberToString hours @ ''h '' @ numberToString minutes @ ''min'')
                   else if numTruthy hours then JStr (numberToString hours @ ''h'')
                   else if numTruthy minutes then JStr (numberToString minutes @ ''min'')
                   else extractText duration)
           | None \<Rightarrow> extractText duration)
      | _ \<Rightarrow> extractText duration)"

definition extractNumber :: "jsval \<Rightarrow> jsval" where
  "extractNumber v =
     (case v of
        JNum n \<Rightarrow> JNum n
      | JInfinity negative \<Rightarrow> JInfinity negative
      | JStr s \<Rightarrow>
          (case parseInt s of
             NaN \<Rightarrow> JUndefined
           | Finite i \<Rightarrow> JNum (of_int i)
           | Infinity negative \<Rightarrow> JInfinity negative)
      | _ \<Rightarrow> JUndefined)"

text \<open>
  The callback of the instruction map. \<^verbatim>\<open>extractText\<close> may hand over a value that is not
  a string (the \<^verbatim>\<open>text\<close> of an object is not checked); it has no \<^verbatim>\<open>replace\<close>, and the
  call throws a TypeError.
\<close>

definition cleanInstruction :: "jsval \<Rightarrow> js_error + jsval" where
  "cleanInstruction instruction =
     (case instruction of
        JStr s \<Rightarrow> Inr (JStr (trim (stripOrdinal s)))
      | _ \<Rightarrow> Inl TypeError)"

fun mapInstructions :: "jsval list \<Rightarrow> js_error + jsval list" where
  "mapInstructions [] = Inr []"
| "mapInstructions (x # xs) =
     (case cleanInstruction x of
        Inl e \<Rightarrow> Inl e
      | Inr y \<Rightarrow> (case mapInstructions xs of Inl e \<Rightarrow> Inl e | Inr ys \<Rightarrow> Inr (y # ys)))"

section \<open>The structured-data extractor\<close>

text \<open>
  \<^verbatim>\<open>ScrapedRecipe\<close> and \<^verbatim>\<open>Partial<ScrapedRecipe>\<close>: the extractors fill the fields with
  whatever the page gives, so every field is a JavaScript value, \<open>JUndefined\<close> when the
  object has no such field.
\<close>

record ScrapedRecipe =
  title :: jsval
  description :: jsval
  image :: jsval
  prepTime :: jsval
  cookTime :: jsval
  totalTime :: jsval
  servings :: jsval
  difficulty :: jsval
  ingredients :: jsval
  instructions :: jsval
  sourceUrl :: jsval
  tags :: jsval

text \<open>\<^verbatim>\<open>recipe.image?.url\<close>.\<close>

definition optChain :: "jsval \<Rightarrow> string \<Rightarrow> jsval" where
  "optChain v k = (if nullish v then JUndefined else propOf v k)"

definition parseJsonLdRecipe :: "jsval \<Rightarrow> js_error + ScrapedRecipe" where
  "parseJsonLdRecipe recipe =
     (if nullish recipe then Inl TypeError
      else
        case (if truthy (propOf recipe ''recipeInstructions'')
              then mapInstructions (extractArray (propOf recipe ''recipeInstructions''))
              else Inr []) of
          Inl e \<Rightarrow> Inl e
        | Inr steps \<Rightarrow>
            Inr \<lparr> title = extractText (propOf recipe ''name''),
                  description = extractText (propOf recipe ''description''),
                  image = extractText (js_or (optChain (propOf recipe ''image'') ''url'')
                                             (propOf recipe ''image'')),
                  prepTime = extractTime (propOf recipe ''prepTime''),
                  cookTime = extractTime (propOf recipe ''cookTime''),
                  totalTime = extractTime (propOf recipe ''totalTime''),
                  servings = extractNumber (js_or (propOf recipe ''recipeYield'')
                                                  (propOf recipe ''yield'')),
                  difficulty = JUndefined,
                  ingredients = JArr (extractArray (propOf recipe ''recipeIngredient'')),
                  instructions = JArr steps,
                  sourceUrl = JUndefined,
                  tags = JArr (extractArray (propOf recipe ''recipeCategory'')
                               @ extractArray (propOf recipe ''recipeCuisine'')) \<rparr>)"

lemma size_map_of:
  "map_of kvs k = Some w \<Longrightarrow> size w < Suc (size_list (size_prod (\<lambda>_. 0) size) kvs)"
  by (induction kvs) (auto split: if_splits)

lemma size_propOf:
  assumes "truthy (propOf v k)"
  shows "size (propOf v k) < size v"
proof (cases v)
  case (JObj kvs)
  with assms obtain w where "map_of kvs k = Some w"
    by (cases "map_of kvs k") auto
  with JObj size_map_of [of kvs k w] show ?thesis
    by simp
qed (use assms in auto)

text \<open>
  The search for the record of type Recipe. An exception leaves the function as \<open>Inl\<close>;
  \<open>Inr None\<close> is the \<^verbatim>\<open>null\<close> of "no recipe here".
\<close>

function (sequential) findRecipeInJsonLd :: "jsval \<Rightarrow> js_error + ScrapedRecipe option"
  and findRecipeInItems :: "jsval list \<Rightarrow> js_error + ScrapedRecipe option" where
  "findRecipeInJsonLd (JArr items) = findRecipeInItems items"
| "findRecipeInJsonLd data =
     (if nullish data then Inl TypeError
      else if propOf data ''@type'' = JStr ''Recipe''
      then (case parseJsonLdRecipe data of Inl e \<Rightarrow> Inl e | Inr recipe \<Rightarrow> Inr (Some recipe))
      else if truthy (propOf data ''@graph'')
      then findRecipeInJsonLd (propOf data ''@graph'')
      else Inr None)"
| "findRecipeInItems [] = Inr None"
| "findRecipeInItems (item # rest) =
     (case findRecipeInJsonLd item of
        Inl e \<Rightarrow> Inl e
      | Inr (Some recipe) \<Rightarrow> Inr (Some recipe)
      | Inr None \<Rightarrow> findRecipeInItems rest)"
  by pat_completeness auto
termination
proof (relation "measure (\<lambda>x. case x of Inl v \<Rightarrow> size v | Inr vs \<Rightarrow> size_list size vs)")
  fix v :: "(string \<times> jsval) list"
  assume "truthy (propOf (JObj v) ''@graph'')"
  then show "(Inl (propOf (JObj v) ''@graph''), Inl (JObj v))
      \<in> measure (\<lambda>x. case x of Inl v \<Rightarrow> size v | Inr vs \<Rightarrow> size_list size vs)"
    using size_propOf [of "JObj v" "''@graph''"] by simp
qed auto

section \<open>The document\<close>

text \<open>
  The page as cheerio gives it: \<^verbatim>\<open>$(selector)\<close> is the list of the elements that match,
  in document order. An element has its \<^verbatim>\<open>text()\<close>, its \<^verbatim>\<open>html()\<close> (\<open>None\<close> is \<^verbatim>\<open>null\<close>),
  its attributes (\<open>None\<close> is \<^verbatim>\<open>undefined\<close>) and the descendants that \<^verbatim>\<open>find(selector)\<close>
  returns. The selector engine itself is cheerio's and is not part of the scraper.
\<close>

datatype element =
  Element (el_text: string) (el_html: "string option")
          (el_attr: "string \<Rightarrow> string option") (el_find: "string \<Rightarrow> element list")

type_synonym cheerio = "string \<Rightarrow> element list"

text \<open>
  The loop of \<^verbatim>\<open>extractFromJsonLd\<close> over the script elements. \<open>jsonLdScript\<close> is one round
  of it: the recipe that the round returns, \<open>None\<close> when the round ends in \<^verbatim>\<open>continue\<close> or
  falls out of its \<^verbatim>\<open>try\<close>. \<^verbatim>\<open>JSON.parse\<close> is the parameter \<open>jsonParse\<close>, \<open>None\<close> when it
  throws a SyntaxError. The inner \<^verbatim>\<open>catch\<close> takes every exception of the round, the one of
  the parser and the ones of the search.
\<close>

definition jsonLdScript :: "(string \<Rightarrow> jsval option) \<Rightarrow> element \<Rightarrow> ScrapedRecipe option" where
  "jsonLdScript jsonParse script =
     (case el_html script of
        None \<Rightarrow> None
      | Some scriptContent \<Rightarrow>
          if scriptContent = [] then None
          else
            (case jsonParse scriptContent of
               None \<Rightarrow> None
             | Some data \<Rightarrow>
                 (case findRecipeInJsonLd data of
                    Inl e \<Rightarrow> None
                  | Inr (Some recipe) \<Rightarrow> Some recipe
                  | Inr None \<Rightarrow> None)))"

fun scanJsonLdScripts :: "(string \<Rightarrow> jsval option) \<Rightarrow> element list \<Rightarrow> ScrapedRecipe option" where
  "scanJsonLdScripts jsonParse [] = None"
| "scanJsonLdScripts jsonParse (script # rest) =
     (case jsonLdScript jsonParse script of
        Some recipe \<Rightarrow> Some recipe
      | None \<Rightarrow> scanJsonLdScripts jsonParse rest)"

definition extractFromJsonLd :: "(string \<Rightarrow> jsval option) \<Rightarrow> cheerio \<Rightarrow> ScrapedRecipe option" where
  \<open>extractFromJsonLd jsonParse doc =
     scanJsonLdScripts jsonParse (doc ''script[type="application/ld+json"]'')\<close>

section \<open>The microdata extractor\<close>

text \<open>\<^verbatim>\<open>$el.text().trim() || $el.attr('content') || ''\<close>.\<close>

definition propText :: "element \<Rightarrow> string" where
  "propText el =
     (if trim (el_text el) \<noteq> [] then trim (el_text el)
      else case el_attr el ''content'' of
        Some c \<Rightarrow> if c \<noteq> [] then c else []
      | None \<Rightarrow> [])"

definition extractProp :: "element \<Rightarrow> string \<Rightarrow> string list" where
  \<open>extractProp recipeElement p =
     filter (\<lambda>text. text \<noteq> [])
       (map propText (el_find recipeElement (''[itemprop="'' @ p @ ''"]'')))\<close>

text \<open>\<^verbatim>\<open>values[0]\<close>, as a value and as the argument of \<^verbatim>\<open>parseInt\<close>.\<close>

definition first :: "string list \<Rightarrow> jsval" where
  "first values = (case values of [] \<Rightarrow> JUndefined | v # _ \<Rightarrow> JStr v)"

definition firstOpt :: "string list \<Rightarrow> string option" where
  "firstOpt values = (case values of [] \<Rightarrow> None | v # _ \<Rightarrow> Some v)"

definition extractFromMicrodata :: "cheerio \<Rightarrow> ScrapedRecipe option" where
  \<open>extractFromMicrodata doc =
     (case doc ''[itemtype*="schema.org/Recipe"]'' of
        [] \<Rightarrow> None
      | recipeElement # _ \<Rightarrow>
          if \<not> truthy (first (extractProp recipeElement ''name'')) then None
          else
            Some \<lparr> title = first (extractProp recipeElement ''name''),
                   description = first (extractProp recipeElement ''description''),
                   image = (case el_find recipeElement ''[itemprop="image"]'' of
                              [] \<Rightarrow> JUndefined
                            | img # _ \<Rightarrow>
                                (case el_attr img ''src'' of
                                   None \<Rightarrow> JUndefined
                                 | Some src \<Rightarrow> JStr src)),
                   prepTime = first (extractProp recipeElement ''prepTime''),
                   cookTime = first (extractProp recipeElement ''cookTime''),
                   totalTime = first (extractProp recipeElement ''totalTime''),
                   servings =
                     (case parseIntOpt (firstOpt (extractProp recipeElement ''recipeYield'')) of
                        NaN \<Rightarrow> JUndefined
                      | Finite n \<Rightarrow> if n = 0 then JUndefined else JNum (of_int n)
                      | Infinity negative \<Rightarrow> JInfinity negative),
                   difficulty = JUndefined,
                   ingredients = JArr (map JStr (extractProp recipeElement ''recipeIngredient'')),
                   instructions = JArr (map JStr (extractProp recipeElement ''recipeInstructions'')),
                   sourceUrl = JUndefined,
                   tags = JUndefined \<rparr>)\<close>

section \<open>The heuristic selector extractor\<close>

fun findTextBySelectors :: "cheerio \<Rightarrow> string list \<Rightarrow> string" where
  "findTextBySelectors doc [] = []"
| "findTextBySelectors doc (selector # selectors) =
     (case doc selector of
        [] \<Rightarrow> findTextBySelectors doc selectors
      | element # _ \<Rightarrow>
          if trim (el_text element) \<noteq> [] then trim (el_text element)
          else findTextBySelectors doc selectors)"

definition textsOf :: "element list \<Rightarrow> string list" where
  "textsOf elements = filter (\<lambda>text. text \<noteq> []) (map (\<lambda>el. trim (el_text el)) elements)"

fun findMultipleTextBySelectors :: "cheerio \<Rightarrow> string list \<Rightarrow> string list" where
  "findMultipleTextBySelectors doc [] = []"
| "findMultipleTextBySelectors doc (selector # selectors) =
     (if doc selector \<noteq> [] \<and> textsOf (doc selector) \<noteq> [] then textsOf (doc selector)
      else findMultipleTextBySelectors doc selectors)"

definition titleSelectors :: "string list" where
  \<open>titleSelectors =
     [''.recipe-title'', ''.entry-title'', ''h1.recipe-name'', ''.recipe-header h1'',
      ''[class*="recipe-title"]'', ''[class*="recipe-name"]'']\<close>

definition ingredientSelectors :: "string list" where
  \<open>ingredientSelectors =
     [''.recipe-ingredient'', ''.ingredient'', ''.recipe-ingredients li'',
      ''[class*="ingredient"]'', ''.ingredients li'']\<close>

definition instructionSelectors :: "string list" where
  \<open>instructionSelectors =
     [''.recipe-instruction'', ''.instruction'', ''.recipe-instructions li'',
      ''.recipe-method li'', ''[class*="instruction"]'', ''.directions li'']\<close>

definition extractFromCommonSelectors :: "cheerio \<Rightarrow> ScrapedRecipe option" where
  "extractFromCommonSelectors doc =
     (let title = findTextBySelectors doc titleSelectors
      in if title = [] then None
         else
           (let ingredients = findMultipleTextBySelectors doc ingredientSelectors;
                instructions = findMultipleTextBySelectors doc instructionSelectors
            in if length ingredients = 0 \<and> length instructions = 0 then None
               else
                 Some \<lparr> title = JStr (trim title),
                        description = JUndefined,
                        image = JUndefined,
                        prepTime = JUndefined,
                        cookTime = JUndefined,
                        totalTime = JUndefined,
                        servings = JUndefined,
                        difficulty = JUndefined,
                        ingredients = JArr (map JStr ingredients),
                        instructions = JArr (map JStr instructions),
                        sourceUrl = JUndefined,
                        tags = JUndefined \<rparr>))"

section \<open>The orchestrator\<close>

text \<open>
  The object that \<^verbatim>\<open>extractRecipeFromUrl\<close> returns for the result of one extractor; the
  source writes the same literal three times.
\<close>

definition returned :: "string \<Rightarrow> ScrapedRecipe \<Rightarrow> ScrapedRecipe" where
  "returned url r =
     \<lparr> title = title r,
       description = description r,
       image = image r,
       prepTime = prepTime r,
       cookTime = cookTime r,
       totalTime = totalTime r,
       servings = servings r,
       difficulty = difficulty r,
       ingredients = js_or (ingredients r) (JArr []),
       instructions = js_or (instructions r) (JArr []),
       sourceUrl = JStr url,
       tags = tags r \<rparr>"

text \<open>\<^verbatim>\<open>if (recipe && recipe.title)\<close>.\<close>

definition usable :: "ScrapedRecipe option \<Rightarrow> bool" where
  "usable r = (case r of None \<Rightarrow> False | Some recipe \<Rightarrow> truthy (title recipe))"

text \<open>The body of the \<^verbatim>\<open>try\<close>, once the page is fetched and loaded.\<close>

definition extractRecipe :: "(string \<Rightarrow> jsval option) \<Rightarrow> string \<Rightarrow> cheerio \<Rightarrow> js_error + ScrapedRecipe" where
  "extractRecipe jsonParse url doc =
     (if usable (extractFromJsonLd jsonParse doc)
      then Inr (returned url (the (extractFromJsonLd jsonParse doc)))
      else if usable (extractFromMicrodata doc)
      then Inr (returned url (the (extractFromMicrodata doc)))
      else if usable (extractFromCommonSelectors doc)
      then Inr (returned url (the (extractFromCommonSelectors doc)))
      else Inl (Error ''No recipe data found on this page''))"

text \<open>
  \<^verbatim>\<open>extractRecipeFromUrl\<close>. The argument \<open>fetched\<close> is the outcome of \<^verbatim>\<open>axios.get\<close> and
  \<^verbatim>\<open>cheerio.load\<close>: the document, or the exception of the request; an \<open>AxiosError\<close> has its
  \<^verbatim>\<open>code\<close> and the status of its \<^verbatim>\<open>response\<close>, each of which may be missing. The \<^verbatim>\<open>catch\<close>
  renames three failures of the request and throws every other exception again.
\<close>

definition rethrow :: "js_error \<Rightarrow> js_error" where
  "rethrow error =
     (case error of
        AxiosError code status \<Rightarrow>
          if code = Some ''ENOTFOUND'' then Error ''Website not found''
          else if status = Some 404 then Error ''Recipe page not found''
          else if code = Some ''ECONNABORTED'' then Error ''Request timed out''
          else error
      | _ \<Rightarrow> error)"

definition extractRecipeFromUrl ::
    "(string \<Rightarrow> jsval option) \<Rightarrow> string \<Rightarrow> js_error + cheerio \<Rightarrow> js_error + ScrapedRecipe" where
  "extractRecipeFromUrl jsonParse url fetched =
     (case (case fetched of Inl e \<Rightarrow> Inl e | Inr doc \<Rightarrow> extractRecipe jsonParse url doc) of
        Inl error \<Rightarrow> Inl (rethrow error)
      | Inr recipe \<Rightarrow> Inr recipe)"

section \<open>The compiled twin\<close>

text \<open>
  \<^verbatim>\<open>functions/lib/index.js\<close> is the output of the TypeScript compiler for the file above.
  Its functions are modelled from its own text, on the same JavaScript values and the
  same document; the names carry the prefix \<open>lib\<close>.
\<close>

definition lib_extractText :: "jsval \<Rightarrow> jsval" where
  "lib_extractText v =
     (if isString v then v
      else if truthy v \<and> truthy (propOf v ''text'') then propOf v ''text''
      else if truthy v \<and> truthy (propOf v ''@value'') then propOf v ''@value''
      else JStr [])"

definition lib_extractArray :: "jsval \<Rightarrow> jsval list" where
  "lib_extractArray v =
     (if \<not> truthy v then []
      else case v of
        JArr xs \<Rightarrow> filter truthy (map lib_extractText xs)
      | _ \<Rightarrow> filter truthy [lib_extractText v])"

definition lib_extractTime :: "jsval \<Rightarrow> jsval" where
  "lib_extractTime duration =
     (if \<not> truthy duration then JStr []
      else case duration of
        JStr s \<Rightarrow>
          (case matchDuration s of
             Some (g1, g2) \<Rightarrow>
               (let hours = (case g1 of Some d \<Rightarrow> parseInt d | None \<Rightarrow> Finite 0);
                    minutes = (case g2 of Some d \<Rightarrow> parseInt d | None \<Rightarrow> Finite 0)
                in if numTruthy hours \<and> numTruthy minutes
                   then JStr (numberToString hours @ ''h '' @ numberToString minutes @ ''min'')
                   else if numTruthy hours then JStr (numberToString hours @ ''h'')
                   else if numTruthy minutes then JStr (numberToString minutes @ ''min'')
                   else lib_extractText duration)
           | None \<Rightarrow> lib_extractText duration)
      | _ \<Rightarrow> lib_extractText duration)"

definition lib_extractNumber :: "jsval \<Rightarrow> jsval" where
  "lib_extractNumber v =
     (case v of
        JNum n \<Rightarrow> JNum n
      | JInfinity negative \<Rightarrow> JInfinity negative
      | JStr s \<Rightarrow>
          (case parseInt s of
             NaN \<Rightarrow> JUndefined
           | Finite i \<Rightarrow> JNum (of_int i)
           | Infinity negative \<Rightarrow> JInfinity negative)
      | _ \<Rightarrow> JUndefined)"

definition lib_cleanInstruction :: "jsval \<Rightarrow> js_error + jsval" where
  "lib_cleanInstruction instruction =
     (case instruction of
        JStr s \<Rightarrow> Inr (JStr (trim (stripOrdinal s)))
      | _ \<Rightarrow> Inl TypeError)"

fun lib_mapInstructions :: "jsval list \<Rightarrow> js_error + jsval list" where
  "lib_mapInstructions [] = Inr []"
| "lib_mapInstructions (x # xs) =
     (case lib_cleanInstruction x of
        Inl e \<Rightarrow> Inl e
      | Inr y \<Rightarrow> (case lib_mapInstructions xs of Inl e \<Rightarrow> Inl e | Inr ys \<Rightarrow> Inr (y # ys)))"

text \<open>
  The compiler writes \<^verbatim>\<open>recipe.image?.url\<close> as
  \<^verbatim>\<open>(_a = recipe.image) === null || _a === void 0 ? void 0 : _a.url\<close>.
\<close>

definition lib_imageUrl :: "jsval \<Rightarrow> jsval" where
  "lib_imageUrl recipe =
     (let a = propOf recipe ''image''
      in if a = JNull \<or> a = JUndefined then JUndefined else propOf a ''url'')"

definition lib_parseJsonLdRecipe :: "jsval \<Rightarrow> js_error + ScrapedRecipe" where
  "lib_parseJsonLdRecipe recipe =
     (if nullish recipe then Inl TypeError
      else
        case (if truthy (propOf recipe ''recipeInstructions'')
              then lib_mapInstructions (lib_extractArray (propOf recipe ''recipeInstructions''))
              else Inr []) of
          Inl e \<Rightarrow> Inl e
        | Inr steps \<Rightarrow>
            Inr \<lparr> title = lib_extractText (propOf recipe ''name''),
                  description = lib_extractText (propOf recipe ''description''),
                  image = lib_extractText (js_or (lib_imageUrl recipe) (propOf recipe ''image'')),
                  prepTime = lib_extractTime (propOf recipe ''prepTime''),
                  cookTime = lib_extractTime (propOf recipe ''cookTime''),
                  totalTime = lib_extractTime (propOf recipe ''totalTime''),
                  servings = lib_extractNumber (js_or (propOf recipe ''recipeYield'')
                                                      (propOf recipe ''yield'')),
                  difficulty = JUndefined,
                  ingredients = JArr (lib_extractArray (propOf recipe ''recipeIngredient'')),
                  instructions = JArr steps,
                  sourceUrl = JUndefined,
                  tags = JArr (lib_extractArray (propOf recipe ''recipeCategory'')
                               @ lib_extractArray (propOf recipe ''recipeCuisine'')) \<rparr>)"

function (sequential) lib_findRecipeInJsonLd :: "jsval \<Rightarrow> js_error + ScrapedRecipe option"
  and lib_findRecipeInItems :: "jsval list \<Rightarrow> js_error + ScrapedRecipe option" where
  "lib_findRecipeInJsonLd (JArr items) = lib_findRecipeInItems items"
| "lib_findRecipeInJsonLd data =
     (if nullish data then Inl TypeError
      else if propOf data ''@type'' = JStr ''Recipe''
      then (case lib_parseJsonLdRecipe data of Inl e \<Rightarrow> Inl e | Inr recipe \<Rightarrow> Inr (Some recipe))
      else if truthy (propOf data ''@graph'')
      then lib_findRecipeInJsonLd (propOf data ''@graph'')
      else Inr None)"
| "lib_findRecipeInItems [] = Inr None"
| "lib_findRecipeInItems (item # rest) =
     (case lib_findRecipeInJsonLd item of
        Inl e \<Rightarrow> Inl e
      | Inr (Some recipe) \<Rightarrow> Inr (Some recipe)
      | Inr None \<Rightarrow> lib_findRecipeInItems rest)"
  by pat_completeness auto
termination
proof (relation "measure (\<lambda>x. case x of Inl v \<Rightarrow> size v | Inr vs \<Rightarrow> size_list size vs)")
  fix v :: "(string \<times> jsval) list"
  assume "truthy (propOf (JObj v) ''@graph'')"
  then show "(Inl (propOf (JObj v) ''@graph''), Inl (JObj v))
      \<in> measure (\<lambda>x. case x of Inl v \<Rightarrow> size v | Inr vs \<Rightarrow> size_list size vs)"
    using size_propOf [of "JObj v" "''@graph''"] by simp
qed auto

definition lib_jsonLdScript :: "(string \<Rightarrow> jsval option) \<Rightarrow> element \<Rightarrow> ScrapedRecipe option" where
  "lib_jsonLdScript jsonParse script =
     (case el_html script of
        None \<Rightarrow> None
      | Some scriptContent \<Rightarrow>
          if scriptContent = [] then None
          else
            (case jsonParse scriptContent of
               None \<Rightarrow> None
             | Some data \<Rightarrow>
                 (case lib_findRecipeInJsonLd data of
                    Inl e \<Rightarrow> None
                  | Inr (Some recipe) \<Rightarrow> Some recipe
                  | Inr None \<Rightarrow> None)))"

fun lib_scanJsonLdScripts :: "(string \<Rightarrow> jsval option) \<Rightarrow> element list \<Rightarrow> ScrapedRecipe option" where
  "lib_scanJsonLdScripts jsonParse [] = None"
| "lib_scanJsonLdScripts jsonParse (script # rest) =
     (case lib_jsonLdScript jsonParse script of
        Some recipe \<Rightarrow> Some recipe
      | None \<Rightarrow> lib_scanJsonLdScripts jsonParse rest)"

definition lib_extractFromJsonLd :: "(string \<Rightarrow> jsval option) \<Rightarrow> cheerio \<Rightarrow> ScrapedRecipe option" where
  \<open>lib_extractFromJsonLd jsonParse doc =
     lib_scanJsonLdScripts jsonParse (doc ''script[type="application/ld+json"]'')\<close>

definition lib_propText :: "element \<Rightarrow> string" where
  "lib_propText el =
     (if trim (el_text el) \<noteq> [] then trim (el_text el)
      else case el_attr el ''content'' of
        Some c \<Rightarrow> if c \<noteq> [] then c else []
      | None \<Rightarrow> [])"

definition lib_extractProp :: "element \<Rightarrow> string \<Rightarrow> string list" where
  \<open>lib_extractProp recipeElement p =
     filter (\<lambda>text. text \<noteq> [])
       (map lib_propText (el_find recipeElement (''[itemprop="'' @ p @ ''"]'')))\<close>

definition lib_extractFromMicrodata :: "cheerio \<Rightarrow> ScrapedRecipe option" where
  \<open>lib_extractFromMicrodata doc =
     (case doc ''[itemtype*="schema.org/Recipe"]'' of
        [] \<Rightarrow> None
      | recipeElement # _ \<Rightarrow>
          if \<not> truthy (first (lib_extractProp recipeElement ''name'')) then None
          else
            Some \<lparr> title = first (lib_extractProp recipeElement ''name''),
                   description = first (lib_extractProp recipeElement ''description''),
                   image = (case el_find recipeElement ''[itemprop="image"]'' of
                              [] \<Rightarrow> JUndefined
                            | img # _ \<Rightarrow>
                                (case el_attr img ''src'' of
                                   None \<Rightarrow> JUndefined
                                 | Some src \<Rightarrow> JStr src)),
                   prepTime = first (lib_extractProp recipeElement ''prepTime''),
                   cookTime = first (lib_extractProp recipeElement ''cookTime''),
                   totalTime = first (lib_extractProp recipeElement ''totalTime''),
                   servings =
                     (case parseIntOpt (firstOpt (lib_extractProp recipeElement ''recipeYield'')) of
                        NaN \<Rightarrow> JUndefined
                      | Finite n \<Rightarrow> if n = 0 then JUndefined else JNum (of_int n)
                      | Infinity negative \<Rightarrow> JInfinity negative),
                   difficulty = JUndefined,
                   ingredients = JArr (map JStr (lib_extractProp recipeElement ''recipeIngredient'')),
                   instructions = JArr (map JStr (lib_extractProp recipeElement ''recipeInstructions'')),
                   sourceUrl = JUndefined,
                   tags = JUndefined \<rparr>)\<close>

fun lib_findTextBySelectors :: "cheerio \<Rightarrow> string list \<Rightarrow> string" where
  "lib_findTextBySelectors doc [] = []"
| "lib_findTextBySelectors doc (selector # selectors) =
     (case doc selector of
        [] \<Rightarrow> lib_findTextBySelectors doc selectors
      | element # _ \<Rightarrow>
          if trim (el_text element) \<noteq> [] then trim (el_text element)
          else lib_findTextBySelectors doc selectors)"

definition lib_textsOf :: "element list \<Rightarrow> string list" where
  "lib_textsOf elements = filter (\<lambda>text. text \<noteq> []) (map (\<lambda>el. trim (el_text el)) elements)"

fun lib_findMultipleTextBySelectors :: "cheerio \<Rightarrow> string list \<Rightarrow> string list" where
  "lib_findMultipleTextBySelectors doc [] = []"
| "lib_findMultipleTextBySelectors doc (selector # selectors) =
     (if doc selector \<noteq> [] \<and> lib_textsOf (doc selector) \<noteq> [] then lib_textsOf (doc selector)
      else lib_findMultipleTextBySelectors doc selectors)"

definition lib_titleSelectors :: "string list" where
  \<open>lib_titleSelectors =
     [''.recipe-title'', ''.entry-title'', ''h1.recipe-name'', ''.recipe-header h1'',
      ''[class*="recipe-title"]'', ''[class*="recipe-name"]'']\<close>

definition lib_ingredientSelectors :: "string list" where
  \<open>lib_ingredientSelectors =
     [''.recipe-ingredient'', ''.ingredient'', ''.recipe-ingredients li'',
      ''[class*="ingredient"]'', ''.ingredients li'']\<close>

definition lib_instructionSelectors :: "string list" where
  \<open>lib_instructionSelectors =
     [''.recipe-instruction'', ''.instruction'', ''.recipe-instructions li'',
      ''.recipe-method li'', ''[class*="instruction"]'', ''.directions li'']\<close>

definition lib_extractFromCommonSelectors :: "cheerio \<Rightarrow> ScrapedRecipe option" where
  "lib_extractFromCommonSelectors doc =
     (let title = lib_findTextBySelectors doc lib_titleSelectors
      in if title = [] then None
         else
           (let ingredients = lib_findMultipleTextBySelectors doc lib_ingredientSelectors;
                instructions = lib_findMultipleTextBySelectors doc lib_instructionSelectors
            in if length ingredients = 0 \<and> length instructions = 0 then None
               else
                 Some \<lparr> title = JStr (trim title),
                        description = JUndefined,
                        image = JUndefined,
                        prepTime = JUndefined,
                        cookTime = JUndefined,
                        totalTime = JUndefined,
                        servings = JUndefined,
                        difficulty = JUndefined,
                        ingredients = JArr (map JStr ingredients),
                        instructions = JArr (map JStr instructions),
                        sourceUrl = JUndefined,
                        tags = JUndefined \<rparr>))"

definition lib_returned :: "string \<Rightarrow> ScrapedRecipe \<Rightarrow> ScrapedRecipe" where
  "lib_returned url r =
     \<lparr> title = title r,
       description = description r,
       image = image r,
       prepTime = prepTime r,
       cookTime = cookTime r,
       totalTime = totalTime r,
       servings = servings r,
       difficulty = difficulty r,
       ingredients = js_or (ingredients r) (JArr []),
       instructions = js_or (instructions r) (JArr []),
       sourceUrl = JStr url,
       tags = tags r \<rparr>"

definition lib_usable :: "ScrapedRecipe option \<Rightarrow> bool" where
  "lib_usable r = (case r of None \<Rightarrow> False | Some recipe \<Rightarrow> truthy (title recipe))"

definition lib_extractRecipe :: "(string \<Rightarrow> jsval option) \<Rightarrow> string \<Rightarrow> cheerio \<Rightarrow> js_error + ScrapedRecipe" where
  "lib_extractRecipe jsonParse url doc =
     (if lib_usable (lib_extractFromJsonLd jsonParse doc)
      then Inr (lib_returned url (the (lib_extractFromJsonLd jsonParse doc)))
      else if lib_usable (lib_extractFromMicrodata doc)
      then Inr (lib_returned url (the (lib_extractFromMicrodata doc)))
      else if lib_usable (lib_extractFromCommonSelectors doc)
      then Inr (lib_returned url (the (lib_extractFromCommonSelectors doc)))
      else Inl (Error ''No recipe data found on this page''))"

text \<open>
  The compiler writes \<^verbatim>\<open>error.response?.status === 404\<close> as
  \<^verbatim>\<open>((_a = error.response) === null || _a === void 0 ? void 0 : _a.status) === 404\<close>: the
  status of a missing response is \<^verbatim>\<open>undefined\<close>, which is not 404.
\<close>

definition lib_rethrow :: "js_error \<Rightarrow> js_error" where
  "lib_rethrow error =
     (case error of
        AxiosError code response \<Rightarrow>
          if code = Some ''ENOTFOUND'' then Error ''Website not found''
          else if (case response of None \<Rightarrow> False | Some status \<Rightarrow> status = 404)
          then Error ''Recipe page not found''
          else if code = Some ''ECONNABORTED'' then Error ''Request timed out''
          else error
      | _ \<Rightarrow> error)"

definition lib_extractRecipeFromUrl ::
    "(string \<Rightarrow> jsval option) \<Rightarrow> string \<Rightarrow> js_error + cheerio \<Rightarrow> js_error + ScrapedRecipe" where
  "lib_extractRecipeFromUrl jsonParse url fetched =
     (case (case fetched of Inl e \<Rightarrow> Inl e | Inr doc \<Rightarrow> lib_extractRecipe jsonParse url doc) of
        Inl error \<Rightarrow> Inl (lib_rethrow error)
      | Inr recipe \<Rightarrow> Inr recipe)"

section \<open>Inputs of the examples\<close>

text \<open>A run of decimal digits that is not empty, as \<^verbatim>\<open>\d+\<close> matches it.\<close>

definition digits :: "string \<Rightarrow> bool" where
  "digits ds = (ds \<noteq> [] \<and> list_all isDigit ds)"

text \<open>A recipe with one step given as a string and one as an object.\<close>

definition steps_recipe :: jsval where
  "steps_recipe =
     JObj [(''@type'', JStr ''Recipe''), (''name'', JStr ''Cake''),
           (''recipeInstructions'',
              JArr [JStr ''1. Preheat the oven'',
                    JObj [(''@type'', JStr ''HowToStep''), (''text'', JStr ''  Mix well  '')]])]"

text \<open>
  A recipe whose first step has a blank before its ordinal and whose second step begins
  with a decimal number.
\<close>

definition lead_recipe :: jsval where
  "lead_recipe =
     JObj [(''@type'', JStr ''Recipe''), (''name'', JStr ''Bread''),
           (''recipeInstructions'', JArr [JStr '' 1. Lead'', JStr ''1.5 cups of flour''])]"

text \<open>An element that has a text only, and the page given by a table of its selections.\<close>

definition leaf :: "string \<Rightarrow> element" where
  "leaf t = Element t None (\<lambda>a. None) (\<lambda>sel. [])"

definition page :: "(string \<times> element list) list \<Rightarrow> cheerio" where
  "page table selector = (case map_of table selector of None \<Rightarrow> [] | Some elements \<Rightarrow> elements)"

definition selector_page :: cheerio where
  "selector_page =
     page [(''.recipe-title'', [leaf '' Pancakes '']),
           (''.ingredient'', [leaf '' flour '', leaf '' '', leaf ''milk'', leaf ''eggs'']),
           (''.recipe-ingredients li'', [leaf ''sugar'']),
           (''.recipe-instruction'', [leaf ''  '']),
           (''.recipe-instructions li'', [leaf ''Mix'', leaf ''Bake''])]"

text \<open>A page whose microdata recipe has the name Soup and the yield \<open>y\<close>.\<close>

definition yield_page :: "string \<Rightarrow> cheerio" where
  \<open>yield_page y =
     page [(''[itemtype*="schema.org/Recipe"]'',
            [Element ''Soup'' None (\<lambda>a. None)
               (page [(''[itemprop="name"]'', [leaf ''Soup'']),
                      (''[itemprop="recipeYield"]'', [leaf y])])])]\<close>

text \<open>
  A script element with the content \<open>c\<close>, two recipes, the values of \<^verbatim>\<open>JSON.parse\<close> on the
  script texts of the example pages (it throws on every other text that the pages
  have), and pages of linked-data blocks.
\<close>

definition script :: "string \<Rightarrow> element" where
  "script content = Element content (Some content) (\<lambda>a. None) (\<lambda>sel. [])"

definition cake :: jsval where
  "cake = JObj [(''@type'', JStr ''Recipe''), (''name'', JStr ''Cake'')]"

definition pie :: jsval where
  "pie = JObj [(''@type'', JStr ''Recipe''), (''name'', JStr ''Pie''),
               (''recipeIngredient'', JArr [JStr ''apples''])]"

definition untitled :: jsval where
  "untitled = JObj [(''@type'', JStr ''Recipe''), (''recipeIngredient'', JArr [JStr ''salt''])]"

definition stew :: jsval where
  "stew = JObj [(''@type'', JStr ''Recipe''), (''name'', JStr ''Stew''),
                (''recipeInstructions'', JArr [JObj [(''text'', JNum 5)]])]"

definition example_parse :: "string \<Rightarrow> jsval option" where
  \<open>example_parse =
     map_of [(''{"@type":"WebSite"}'', JObj [(''@type'', JStr ''WebSite'')]),
             (''{"@type":"Recipe","recipeIngredient":["salt"]}'', untitled),
             (''{"@type":"Recipe","name":"Cake"}'', cake),
             (''{"@type":"Recipe","name":"Pie","recipeIngredient":["apples"]}'', pie),
             (''[null,{"@type":"Recipe","name":"Cake"}]'', JArr [JNull, cake]),
             (''{"@type":"Recipe","name":"Stew","recipeInstructions":[{"text":5}]}'', stew)]\<close>

definition two_block_page :: cheerio where
  \<open>two_block_page =
     page [(''script[type="application/ld+json"]'',
            [script ''{"@type":"WebSite"}'',
             script ''{"@type":"Recipe","name":"Pie","recipeIngredient":["apples"]}''])]\<close>

definition broken_block_page :: cheerio where
  \<open>broken_block_page =
     page [(''script[type="application/ld+json"]'',
            [script ''{"@type":'',
             script ''{"@type":"Recipe","name":"Pie","recipeIngredient":["apples"]}'',
             script ''{"@type":"Recipe","name":"Cake"}''])]\<close>

definition null_first_page :: cheerio where
  \<open>null_first_page =
     page [(''script[type="application/ld+json"]'',
            [script ''[null,{"@type":"Recipe","name":"Cake"}]''])]\<close>

definition null_then_pie_page :: cheerio where
  \<open>null_then_pie_page =
     page [(''script[type="application/ld+json"]'',
            [script ''[null,{"@type":"Recipe","name":"Cake"}]'',
             script ''{"@type":"Recipe","name":"Pie","recipeIngredient":["apples"]}''])]\<close>

definition stew_page :: cheerio where
  \<open>stew_page =
     page [(''script[type="application/ld+json"]'',
            [script ''{"@type":"Recipe","name":"Stew","recipeInstructions":[{"text":5}]}''])]\<close>


text \<open>
  The search of C4 in the words of the specification, to compare with
  \<open>findRecipeInJsonLd\<close>: a list is searched in order and gives its first match; an object
  whose \<^verbatim>\<open>@type\<close> is \<^verbatim>\<open>"Recipe"\<close> is the match and is mapped; an object with a \<^verbatim>\<open>@graph\<close>
  property is searched in that property; every other value gives \<^verbatim>\<open>null\<close>.
\<close>

function (sequential) spec_findRecipe :: "jsval \<Rightarrow> js_error + ScrapedRecipe option"
  and spec_findRecipeInList :: "jsval list \<Rightarrow> js_error + ScrapedRecipe option" where
  "spec_findRecipe (JArr items) = spec_findRecipeInList items"
| "spec_findRecipe (JObj kvs) =
     (if map_of kvs ''@type'' = Some (JStr ''Recipe'')
      then (case parseJsonLdRecipe (JObj kvs) of Inl e \<Rightarrow> Inl e | Inr recipe \<Rightarrow> Inr (Some recipe))
      else case map_of kvs ''@graph'' of
        Some graph \<Rightarrow> spec_findRecipe graph
      | None \<Rightarrow> Inr None)"
| "spec_findRecipe v = Inr None"
| "spec_findRecipeInList [] = Inr None"
| "spec_findRecipeInList (item # rest) =
     (case spec_findRecipe item of
        Inl e \<Rightarrow> Inl e
      | Inr (Some recipe) \<Rightarrow> Inr (Some recipe)
      | Inr None \<Rightarrow> spec_findRecipeInList rest)"
  by pat_completeness auto
termination
proof (relation "measure (\<lambda>x. case x of Inl v \<Rightarrow> size v | Inr vs \<Rightarrow> size_list size vs)")
  fix kvs :: "(string \<times> jsval) list" and graph
  assume "map_of kvs ''@graph'' = Some graph"
  then show "(Inl graph, Inl (JObj kvs))
      \<in> measure (\<lambda>x. case x of Inl v \<Rightarrow> size v | Inr vs \<Rightarrow> size_list size vs)"
    using size_map_of [of kvs "''@graph''" graph] by simp
qed auto

text \<open>
  The duration text in the words of the amended claim C5, for an hour count, a minute
  count and the raw string: a count that is NaN or 0 counts as absent. \<open>hasPT\<close> says that
  the letters \<^verbatim>\<open>PT\<close> occur in a string, one after the other.
\<close>

definition spec_durationText :: "number \<Rightarrow> number \<Rightarrow> string \<Rightarrow> jsval" where
  "spec_durationText h m raw =
     (if numTruthy h \<and> numTruthy m
      then JStr (numberToString h @ ''h '' @ numberToString m @ ''min'')
      else if numTruthy h then JStr (numberToString h @ ''h'')
      else if numTruthy m then JStr (numberToString m @ ''min'')
      else JStr raw)"

fun hasPT :: "string \<Rightarrow> bool" where
  "hasPT (c # d # r) = ((c = CHR ''P'' \<and> d = CHR ''T'') \<or> hasPT (d # r))"
| "hasPT s = False"

text \<open>
  The field mapping of the structured-data extractor in the words of the specification.
  A text field is a plain string, or an object with a \<^verbatim>\<open>text\<close> property, or an object
  with a \<^verbatim>\<open>@value\<close> property, and is unwrapped; everything else has the empty text. A
  list field is a list, or a single value that stands for the list of one entry, or is
  missing; the entries are unwrapped and the empty ones dropped.
\<close>

fun spec_text :: "jsval \<Rightarrow> jsval" where
  "spec_text (JStr s) = JStr s"
| "spec_text (JObj kvs) =
     (case map_of kvs ''text'' of
        Some t \<Rightarrow>
          if truthy t then t
          else (case map_of kvs ''@value'' of Some v \<Rightarrow> if truthy v then v else JStr [] | None \<Rightarrow> JStr [])
      | None \<Rightarrow>
          (case map_of kvs ''@value'' of Some v \<Rightarrow> if truthy v then v else JStr [] | None \<Rightarrow> JStr []))"
| "spec_text v = JStr []"

fun spec_list :: "jsval \<Rightarrow> jsval list" where
  "spec_list (JArr entries) = filter truthy (map spec_text entries)"
| "spec_list (JStr s) = (if s = [] then [] else [JStr s])"
| "spec_list (JObj kvs) = (if truthy (spec_text (JObj kvs)) then [spec_text (JObj kvs)] else [])"
| "spec_list v = []"

text \<open>
  A recipe whose category is a single string and whose cuisine list has an object, an
  empty string and a string.
\<close>

definition tag_recipe :: jsval where
  "tag_recipe =
     JObj [(''@type'', JStr ''Recipe''), (''name'', JStr ''Tiramisu''),
           (''recipeCategory'', JStr ''dessert''),
           (''recipeCuisine'',
              JArr [JObj [(''@value'', JStr ''italian'')], JStr [], JStr ''italian''])]"


text \<open>
  A page with one linked-data recipe that has a name only, a page with that block and
  a microdata recipe of another name, and a page with nothing on it.
\<close>

definition cake_page :: cheerio where
  \<open>cake_page =
     page [(''script[type="application/ld+json"]'', [script ''{"@type":"Recipe","name":"Cake"}''])]\<close>

definition both_page :: cheerio where
  \<open>both_page =
     page [(''script[type="application/ld+json"]'', [script ''{"@type":"Recipe","name":"Cake"}'']),
           (''[itemtype*="schema.org/Recipe"]'',
            [Element ''Soup'' None (\<lambda>a. None) (page [(''[itemprop="name"]'', [leaf ''Soup''])])])]\<close>

definition empty_page :: cheerio where
  "empty_page = page []"

text \<open>
  A page whose linked-data recipe has no name, beside a microdata recipe; a page with a
  title for the selectors and nothing else.
\<close>

definition untitled_page :: cheerio where
  \<open>untitled_page =
     page [(''script[type="application/ld+json"]'',
            [script ''{"@type":"Recipe","recipeIngredient":["salt"]}'']),
           (''[itemtype*="schema.org/Recipe"]'',
            [Element ''Soup'' None (\<lambda>a. None) (page [(''[itemprop="name"]'', [leaf ''Soup''])])])]\<close>

definition title_only_page :: cheerio where
  "title_only_page = page [(''.recipe-title'', [leaf ''Pancakes''])]"

section \<open>Helper lemmas\<close>

lemma extractText_JStr: "extractText (JStr s) = JStr s"
  by (simp add: extractText_def)

lemma extractArray_strings:
  "extractArray (JArr (map JStr xs)) = map JStr (filter (\<lambda>s. s \<noteq> []) xs)"
  by (induction xs) (simp_all add: extractArray_def extractText_JStr)

subsection \<open>Rounding to a double\<close>

lemma bitLength_bounds:
  "0 < n \<Longrightarrow> 2 ^ (bitLength n - 1) \<le> n \<and> n < 2 ^ bitLength n"
proof (induction n rule: bitLength.induct)
  case (1 n)
  show ?case
  proof (cases "n div 2 = 0")
    case True
    with 1(2) have n: "n = 1" by linarith
    have b: "bitLength 1 = 1"
      by (simp add: bitLength.simps [of "Suc 0"] bitLength.simps [of 0])
    show ?thesis unfolding n b by simp
  next
    case False
    then have pos: "0 < n div 2" by simp
    from 1(1) [OF _ pos] 1(2)
    have ih: "2 ^ (bitLength (n div 2) - 1) \<le> n div 2" "n div 2 < 2 ^ bitLength (n div 2)"
      by simp_all
    have bl: "bitLength n = Suc (bitLength (n div 2))"
      using 1(2) by (simp add: bitLength.simps [of n])
    have bp: "0 < bitLength (n div 2)"
      using pos by (simp add: bitLength.simps [of "n div 2"])
    then obtain k where k: "bitLength (n div 2) = Suc k"
      by (cases "bitLength (n div 2)") simp_all
    from ih k have "2 * 2 ^ k \<le> n" "n < 2 * 2 ^ Suc k"
      by simp_all
    then show ?thesis by (simp add: bl k)
  qed
qed

lemma power_two_less:
  assumes "(2::nat) ^ k < 2 ^ b"
  shows "k < b"
proof (rule ccontr)
  assume "\<not> k < b"
  then have "b \<le> k" by simp
  then have "(2::nat) ^ b \<le> 2 ^ k"
    by (intro power_increasing) simp_all
  with assms show False by linarith
qed

lemma toDouble_small: "n < 2 ^ 53 \<Longrightarrow> toDouble n = Some n"
  by (simp add: toDouble_def)

lemma round_lower:
  fixes n e q p :: nat
  assumes "2 ^ (p + e) \<le> n" and "q = n div 2 ^ e"
  shows "2 ^ (p + e) \<le> q * 2 ^ e" and "2 ^ (p + e) \<le> (q + 1) * 2 ^ e"
proof -
  from assms(1) have "2 ^ p * 2 ^ e \<le> n" by (simp add: power_add)
  then have "2 ^ p \<le> q"
    unfolding assms(2) by (simp add: less_eq_div_iff_mult_less_eq)
  then show "2 ^ (p + e) \<le> q * 2 ^ e" by (simp add: power_add)
  then show "2 ^ (p + e) \<le> (q + 1) * 2 ^ e" by simp
qed

lemma toDouble_big:
  assumes "2 ^ 53 \<le> n"
  shows "toDouble n = None \<or> (\<exists>m. toDouble n = Some m \<and> 2 ^ (bitLength n - 1) \<le> m)"
proof -
  from assms have pos: "0 < n"
    by (metis less_le_trans zero_less_numeral zero_less_power)
  define e where "e = bitLength n - 53"
  define q where "q = n div 2 ^ e"
  define b where "b = bitLength n - 1"
  from bitLength_bounds [OF pos] have lo: "2 ^ b \<le> n" and hi: "n < 2 ^ bitLength n"
    by (simp_all add: b_def)
  from assms hi have "(2::nat) ^ 53 < 2 ^ bitLength n" by linarith
  then have bl: "53 < bitLength n" by (rule power_two_less)
  then have split: "b = 52 + e" by (simp add: e_def b_def)
  from lo have lo': "2 ^ (52 + e) \<le> n" unfolding split .
  note r = round_lower [OF lo' q_def]
  have big: "\<not> n < 2 ^ 53" using assms by linarith
  have "toDouble n =
          (if (if 2 ^ (e - 1) < n mod 2 ^ e \<or> (n mod 2 ^ e = 2 ^ (e - 1) \<and> odd q) then q + 1 else q)
                * 2 ^ e < 2 ^ 1024
           then Some ((if 2 ^ (e - 1) < n mod 2 ^ e \<or> (n mod 2 ^ e = 2 ^ (e - 1) \<and> odd q)
                       then q + 1 else q) * 2 ^ e)
           else None)"
    unfolding toDouble_def Let_def e_def [symmetric] q_def [symmetric] if_not_P [OF big]
    by (rule refl)
  then show ?thesis
    unfolding b_def [symmetric] split using r by (auto split: if_splits)
qed

lemma toDouble_overflow:
  assumes "2 ^ 1024 \<le> n"
  shows "toDouble n = None"
proof -
  have "(2::nat) ^ 53 \<le> 2 ^ 1024" by simp
  with assms have big: "2 ^ 53 \<le> n" by linarith
  then have pos: "0 < n"
    by (metis less_le_trans zero_less_numeral zero_less_power)
  from bitLength_bounds [OF pos] assms have "(2::nat) ^ 1024 < 2 ^ bitLength n" by linarith
  then have "1024 < bitLength n" by (rule power_two_less)
  then have "(2::nat) ^ 1024 \<le> 2 ^ (bitLength n - 1)"
    by (intro power_increasing) simp_all
  moreover have "m < 2 ^ 1024" if "toDouble n = Some m" for m
    using that big by (auto simp: toDouble_def Let_def split: if_splits)
  ultimately show ?thesis
    using toDouble_big [OF big] by (cases "toDouble n") (auto dest: leD order_trans)
qed

lemma toDouble_zero: "toDouble n = Some 0 \<longleftrightarrow> n = 0"
proof (cases "n < 2 ^ 53")
  case True
  then show ?thesis by (simp add: toDouble_small)
next
  case False
  then have big: "2 ^ 53 \<le> n" by simp
  then have "n \<noteq> 0" by (metis not_less zero_less_numeral zero_less_power le_zero_eq)
  moreover from toDouble_big [OF big] have "toDouble n \<noteq> Some 0" by auto
  ultimately show ?thesis by simp
qed

section \<open>C6: the tags of the structured-data extractor\<close>

lemma extractText_spec: "extractText v = spec_text v"
proof (cases v)
  case (JObj kvs)
  then show ?thesis
    by (cases "map_of kvs ''text''"; cases "map_of kvs ''@value''")
       (simp_all add: extractText_def)
qed (simp_all add: extractText_def)

lemma extractArray_spec: "extractArray v = spec_list v"
proof (cases v)
  case (JArr entries)
  have "extractText = spec_text"
    by (rule ext) (rule extractText_spec)
  with JArr show ?thesis by (simp add: extractArray_def)
next
  case (JObj kvs)
  then show ?thesis
    by (simp add: extractArray_def extractText_spec del: spec_text.simps)
qed (simp_all add: extractArray_def extractText_def)

lemma extractArray_JStr: "extractArray (JStr s) = map JStr (filter (\<lambda>s. s \<noteq> []) [s])"
  by (simp add: extractArray_def extractText_def)

lemma extractArray_JUndefined: "extractArray JUndefined = []"
  by (simp add: extractArray_def)

text \<open>
  The claim C6 as the specification states it, tags without duplicates, fails on the
  code: for the categories \<^verbatim>\<open>["dessert","dessert"]\<close> and the cuisine \<^verbatim>\<open>["italian"]\<close>
  \<^verbatim>\<open>parseJsonLdRecipe\<close> returns the tags \<^verbatim>\<open>["dessert","dessert","italian"]\<close>, not
  \<^verbatim>\<open>["dessert","italian"]\<close>.
\<close>

theorem C6_tags_duplicates_counterexample:
  "map_sum id tags
     (parseJsonLdRecipe
        (JObj [(''@type'', JStr ''Recipe''), (''name'', JStr ''Tiramisu''),
               (''recipeCategory'', JArr [JStr ''dessert'', JStr ''dessert'']),
               (''recipeCuisine'', JArr [JStr ''italian''])]))
     = Inr (JArr [JStr ''dessert'', JStr ''dessert'', JStr ''italian''])
   \<and> map_sum id tags
     (parseJsonLdRecipe
        (JObj [(''@type'', JStr ''Recipe''), (''name'', JStr ''Tiramisu''),
               (''recipeCategory'', JArr [JStr ''dessert'', JStr ''dessert'']),
               (''recipeCuisine'', JArr [JStr ''italian''])]))
     \<noteq> Inr (JArr [JStr ''dessert'', JStr ''italian''])"
  by (simp add: parseJsonLdRecipe_def extractArray_def extractText_def)

text \<open>
  C6, amended: for every recipe record that \<^verbatim>\<open>parseJsonLdRecipe\<close> maps, the tags are the
  list of the category field followed by the list of the cuisine field, each field
  normalized to a list as the specification words it (\<open>spec_list\<close>: a list as it is, a
  single value as the list of that value, a missing field as the empty list, every
  entry unwrapped to its text and the empty entries dropped), in order and with every
  duplicate kept. For two fields that are lists of strings these are the non-empty
  strings of the first followed by the non-empty strings of the second; a field that is
  a single string counts as the list of that string, and a missing field as the empty
  list. A record maps whenever it has no instructions.
\<close>

theorem C6_tags_concatenation:
  "(parseJsonLdRecipe recipe = Inr r \<longrightarrow>
      tags r = JArr (spec_list (propOf recipe ''recipeCategory'')
                     @ spec_list (propOf recipe ''recipeCuisine'')))
   \<and> (parseJsonLdRecipe recipe = Inr r
        \<and> propOf recipe ''recipeCategory'' = JArr (map JStr categories)
        \<and> propOf recipe ''recipeCuisine'' = JArr (map JStr cuisines) \<longrightarrow>
      tags r = JArr (map JStr (filter (\<lambda>s. s \<noteq> []) categories
                               @ filter (\<lambda>s. s \<noteq> []) cuisines)))
   \<and> (parseJsonLdRecipe recipe = Inr r
        \<and> propOf recipe ''recipeCategory'' = JStr category
        \<and> propOf recipe ''recipeCuisine'' = JArr (map JStr cuisines) \<longrightarrow>
      tags r = JArr (map JStr (filter (\<lambda>s. s \<noteq> []) (category # cuisines))))
   \<and> (parseJsonLdRecipe recipe = Inr r
        \<and> propOf recipe ''recipeCategory'' = JUndefined
        \<and> propOf recipe ''recipeCuisine'' = JStr cuisine \<longrightarrow>
      tags r = JArr (map JStr (filter (\<lambda>s. s \<noteq> []) [cuisine])))
   \<and> (\<not> nullish recipe \<and> \<not> truthy (propOf recipe ''recipeInstructions'') \<longrightarrow>
      (\<exists>r'. parseJsonLdRecipe recipe = Inr r'))"
proof -
  have 1: "tags r = JArr (spec_list (propOf recipe ''recipeCategory'')
                     @ spec_list (propOf recipe ''recipeCuisine''))"
    if "parseJsonLdRecipe recipe = Inr r"
    using that
    by (auto simp: parseJsonLdRecipe_def extractArray_spec split: if_splits sum.splits)
  have 2: "tags r = JArr (map JStr (filter (\<lambda>s. s \<noteq> []) categories
                               @ filter (\<lambda>s. s \<noteq> []) cuisines))"
    if "parseJsonLdRecipe recipe = Inr r"
      "propOf recipe ''recipeCategory'' = JArr (map JStr categories)"
      "propOf recipe ''recipeCuisine'' = JArr (map JStr cuisines)"
    using that
    by (auto simp: parseJsonLdRecipe_def extractArray_strings split: if_splits sum.splits)
  have 3: "\<exists>r'. parseJsonLdRecipe recipe = Inr r'"
    if "\<not> nullish recipe" "\<not> truthy (propOf recipe ''recipeInstructions'')"
    using that by (simp add: parseJsonLdRecipe_def)
  have 4: "tags r = JArr (map JStr (filter (\<lambda>s. s \<noteq> []) (category # cuisines)))"
    if "parseJsonLdRecipe recipe = Inr r"
      "propOf recipe ''recipeCategory'' = JStr category"
      "propOf recipe ''recipeCuisine'' = JArr (map JStr cuisines)"
    using that
    by (auto simp: parseJsonLdRecipe_def extractArray_strings extractArray_JStr
          split: if_splits sum.splits)
  have 5: "tags r = JArr (map JStr (filter (\<lambda>s. s \<noteq> []) [cuisine]))"
    if "parseJsonLdRecipe recipe = Inr r"
      "propOf recipe ''recipeCategory'' = JUndefined"
      "propOf recipe ''recipeCuisine'' = JStr cuisine"
    using that
    by (auto simp: parseJsonLdRecipe_def extractArray_JUndefined extractArray_JStr
          split: if_splits sum.splits)
  from 1 2 3 4 5 show ?thesis by blast
qed

theorem C6_tags_concatenation_witness:
  "(\<exists>r. parseJsonLdRecipe tag_recipe = Inr r
        \<and> tags r = JArr [JStr ''dessert'', JStr ''italian'', JStr ''italian''])
   \<and> (\<exists>r. parseJsonLdRecipe
          (JObj [(''@type'', JStr ''Recipe''), (''name'', JStr ''Tiramisu''),
                 (''recipeCategory'', JArr [JStr ''dessert'', JStr ''dessert'']),
                 (''recipeCuisine'', JArr [JStr ''italian''])]) = Inr r
        \<and> tags r = JArr [JStr ''dessert'', JStr ''dessert'', JStr ''italian''])
   \<and> (\<exists>r. parseJsonLdRecipe cake = Inr r \<and> tags r = JArr [])"
proof -
  let ?recipe = "JObj [(''@type'', JStr ''Recipe''), (''name'', JStr ''Tiramisu''),
                       (''recipeCategory'', JArr [JStr ''dessert'', JStr ''dessert'']),
                       (''recipeCuisine'', JArr [JStr ''italian''])]"
  have n: "\<not> nullish tag_recipe" "\<not> truthy (propOf tag_recipe ''recipeInstructions'')"
    "\<not> nullish cake" "\<not> truthy (propOf cake ''recipeInstructions'')"
    by (simp_all add: tag_recipe_def cake_def)
  from C6_tags_concatenation [of tag_recipe] n obtain t where t: "parseJsonLdRecipe tag_recipe = Inr t"
    by blast
  from C6_tags_concatenation [of tag_recipe t] t
  have 1: "tags t = JArr [JStr ''dessert'', JStr ''italian'', JStr ''italian'']"
    by (simp add: tag_recipe_def)
  obtain r where r: "parseJsonLdRecipe ?recipe = Inr r"
    by (simp add: parseJsonLdRecipe_def)
  have 2: "tags r = JArr [JStr ''dessert'', JStr ''dessert'', JStr ''italian'']"
    using C6_tags_concatenation [of ?recipe r "[''dessert'', ''dessert'']" "[''italian'']"] r
    by simp
  from C6_tags_concatenation [of cake] n obtain c where c: "parseJsonLdRecipe cake = Inr c"
    by blast
  from C6_tags_concatenation [of cake c] c
  have 3: "tags c = JArr []"
    by (simp add: cake_def)
  from t 1 r 2 c 3 show ?thesis by blast
qed

section \<open>C5: the duration normalizer\<close>

lemma isDigit_not_ws: "isDigit c \<Longrightarrow> \<not> isWhiteSpace c"
  by (auto simp: isDigit_def isWhiteSpace_def)

lemma isDigit_digitValue: "isDigit c \<Longrightarrow> digitValue 10 c \<noteq> None"
  by (auto simp: isDigit_def digitValue_def decDigits_def)

lemma isDigit_chars:
  "isDigit c \<Longrightarrow> c \<noteq> CHR ''-'' \<and> c \<noteq> CHR ''+'' \<and> c \<noteq> CHR ''x'' \<and> c \<noteq> CHR ''X''
     \<and> c \<noteq> CHR ''H'' \<and> c \<noteq> CHR ''M'' \<and> c \<noteq> CHR ''.''"
  by (auto simp: isDigit_def)

lemma takeWhile_digits:
  "list_all isDigit ds \<Longrightarrow> \<not> isDigit x \<Longrightarrow> takeWhile isDigit (ds @ x # r) = ds"
  by (induction ds) auto

lemma dropWhile_digits:
  "list_all isDigit ds \<Longrightarrow> \<not> isDigit x \<Longrightarrow> dropWhile isDigit (ds @ x # r) = x # r"
  by (induction ds) auto

lemma parseInt_digits:
  assumes "digits ds"
  shows "parseInt ds =
           (case toDouble (digitsValue 10 ds) of
              None \<Rightarrow> Infinity False
            | Some m \<Rightarrow> Finite (int m))"
proof -
  from assms obtain c cs where ds: "ds = c # cs" and c: "isDigit c" and cs: "list_all isDigit cs"
    by (cases ds) (auto simp: digits_def)
  have tw: "takeWhile (\<lambda>c. digitValue 10 c \<noteq> None) ds = ds"
    using assms isDigit_digitValue by (auto simp: digits_def list_all_iff takeWhile_eq_all_conv)
  have t2: "take (Suc 0) cs \<noteq> ''x''" "take (Suc 0) cs \<noteq> ''X''"
    using cs isDigit_chars by (cases cs; auto)+
  show ?thesis
    using c isDigit_not_ws [OF c] isDigit_chars [OF c] t2 tw
    by (simp add: parseInt_def ds Let_def split: option.splits)
qed

lemma parseInt_digits_small:
  assumes "digits ds" and "digitsValue 10 ds < 2 ^ 53"
  shows "parseInt ds = Finite (int (digitsValue 10 ds))"
    and "numberToString (parseInt ds) = natToString (digitsValue 10 ds)"
proof -
  show p: "parseInt ds = Finite (int (digitsValue 10 ds))"
    by (simp only: parseInt_digits [OF assms(1)] toDouble_small [OF assms(2)] option.case)
  have "\<bar>int (digitsValue 10 ds)\<bar> < 2 ^ 53"
    using assms(2) by (metis abs_of_nat of_nat_less_iff of_nat_numeral of_nat_power)
  then show "numberToString (parseInt ds) = natToString (digitsValue 10 ds)"
    unfolding p numberToString_def by (simp only: number.case if_True) simp
qed

lemma numTruthy_digits:
  assumes "digits ds"
  shows "numTruthy (parseInt ds) \<longleftrightarrow> 0 < digitsValue 10 ds"
proof (cases "toDouble (digitsValue 10 ds)")
  case None
  with toDouble_zero [of "digitsValue 10 ds"] show ?thesis
    by (cases "digitsValue 10 ds = 0") (simp_all add: parseInt_digits [OF assms] numTruthy_def)
next
  case (Some m)
  with toDouble_zero [of "digitsValue 10 ds"] show ?thesis
    by (cases "digitsValue 10 ds = 0") (auto simp: parseInt_digits [OF assms] numTruthy_def)
qed

lemma optGroup_hit:
  "digits ds \<Longrightarrow> \<not> isDigit x \<Longrightarrow> optGroup x (ds @ x # r) = (Some ds, r)"
  by (simp add: optGroup_def digits_def takeWhile_digits dropWhile_digits)

lemma optGroup_other:
  "digits ds \<Longrightarrow> \<not> isDigit y \<Longrightarrow> x \<noteq> y \<Longrightarrow> optGroup x (ds @ y # r) = (None, ds @ y # r)"
  by (simp add: optGroup_def digits_def takeWhile_digits dropWhile_digits)

lemma optGroup_miss:
  assumes "\<not> (\<exists>ds r. digits ds \<and> s = ds @ [x] @ r)"
  shows "optGroup x s = (None, s)"
proof (rule ccontr)
  assume ne: "optGroup x s \<noteq> (None, s)"
  let ?ds = "takeWhile isDigit s" and ?r = "dropWhile isDigit s"
  from ne have a: "?ds \<noteq> []" and b: "take 1 ?r = [x]"
    by (auto simp: optGroup_def Let_def split: if_splits)
  from b have "?r = [x] @ drop 1 ?r"
    by (cases ?r) auto
  then have "s = ?ds @ [x] @ drop 1 ?r"
    by (metis takeWhile_dropWhile_id)
  moreover have "digits ?ds"
    using a by (auto simp: digits_def list_all_iff dest: set_takeWhileD)
  ultimately show False using assms by blast
qed

lemma not_digit_HM: "\<not> isDigit CHR ''H''" "\<not> isDigit CHR ''M''"
  by (simp_all add: isDigit_def)

lemma matchDuration_PT:
  "matchDuration (CHR ''P'' # CHR ''T'' # r) =
     Some (fst (optGroup CHR ''H'' r), fst (optGroup CHR ''M'' (snd (optGroup CHR ''H'' r))))"
  by (simp add: case_prod_beta)

lemma matchDuration_first:
  "\<not> hasPT (pre @ ''P'') \<Longrightarrow>
     matchDuration (pre @ CHR ''P'' # CHR ''T'' # r) =
       Some (fst (optGroup CHR ''H'' r), fst (optGroup CHR ''M'' (snd (optGroup CHR ''H'' r))))"
proof (induction pre)
  case Nil
  show ?case by (simp only: append_Nil matchDuration_PT)
next
  case (Cons c cs)
  show ?case
  proof (cases cs)
    case Nil
    with Cons.prems have "c \<noteq> CHR ''P'' \<or> True" by simp
    from Cons.IH Nil show ?thesis
      by (simp add: case_prod_beta)
  next
    case (Cons d ds)
    with Cons.prems have a: "\<not> (c = CHR ''P'' \<and> d = CHR ''T'')" and b: "\<not> hasPT (cs @ ''P'')"
      by simp_all
    from Cons.IH [OF b] a Cons show ?thesis
      by (auto simp del: matchDuration.simps simp add: matchDuration.simps(2) [of c])
  qed
qed

lemma matchDuration_None: "\<not> hasPT s \<Longrightarrow> matchDuration s = None"
proof (induction s rule: hasPT.induct)
  case (1 c d r)
  then show ?case by auto
qed simp_all

lemma extractTime_cases:
  "extractTime (JStr s) =
     (case matchDuration s of
        Some (g1, g2) \<Rightarrow>
          spec_durationText (case g1 of Some d \<Rightarrow> parseInt d | None \<Rightarrow> Finite 0)
            (case g2 of Some d \<Rightarrow> parseInt d | None \<Rightarrow> Finite 0) s
      | None \<Rightarrow> JStr s)"
proof (cases s)
  case Nil
  then show ?thesis by (simp add: extractTime_def)
next
  case (Cons c cs)
  then have "truthy (JStr s)" by simp
  then show ?thesis
    by (simp only: extractTime_def extractText_JStr jsval.case if_False not_True_eq_False
          simp_thms spec_durationText_def Let_def)
qed

lemma extractTime_HM:
  assumes "digits hs" and "digits ms" and "\<not> hasPT (pre @ ''P'')"
  shows "extractTime (JStr (pre @ ''PT'' @ hs @ ''H'' @ ms @ ''M'' @ post)) =
           spec_durationText (parseInt hs) (parseInt ms)
             (pre @ ''PT'' @ hs @ ''H'' @ ms @ ''M'' @ post)"
proof -
  have "matchDuration (pre @ ''PT'' @ hs @ ''H'' @ ms @ ''M'' @ post) = Some (Some hs, Some ms)"
    using matchDuration_first [OF assms(3), of "hs @ ''H'' @ ms @ ''M'' @ post"]
      optGroup_hit [OF assms(1) not_digit_HM(1), of "ms @ ''M'' @ post"]
      optGroup_hit [OF assms(2) not_digit_HM(2), of post]
    by simp
  then show ?thesis by (simp add: extractTime_cases)
qed

lemma extractTime_H:
  assumes "digits hs" and "\<not> hasPT (pre @ ''P'')"
    and "\<not> (\<exists>ds r. digits ds \<and> post = ds @ ''M'' @ r)"
  shows "extractTime (JStr (pre @ ''PT'' @ hs @ ''H'' @ post)) =
           spec_durationText (parseInt hs) (Finite 0) (pre @ ''PT'' @ hs @ ''H'' @ post)"
proof -
  have "matchDuration (pre @ ''PT'' @ hs @ ''H'' @ post) = Some (Some hs, None)"
    using matchDuration_first [OF assms(2), of "hs @ ''H'' @ post"]
      optGroup_hit [OF assms(1) not_digit_HM(1), of post]
      optGroup_miss [OF assms(3)]
    by simp
  then show ?thesis by (simp add: extractTime_cases)
qed

lemma extractTime_M:
  assumes "digits ms" and "\<not> hasPT (pre @ ''P'')"
  shows "extractTime (JStr (pre @ ''PT'' @ ms @ ''M'' @ post)) =
           spec_durationText (Finite 0) (parseInt ms) (pre @ ''PT'' @ ms @ ''M'' @ post)"
proof -
  have "matchDuration (pre @ ''PT'' @ ms @ ''M'' @ post) = Some (None, Some ms)"
    using matchDuration_first [OF assms(2), of "ms @ ''M'' @ post"]
      optGroup_other [OF assms(1) not_digit_HM(2), of "CHR ''H''" post]
      optGroup_hit [OF assms(1) not_digit_HM(2), of post]
    by simp
  then show ?thesis by (simp add: extractTime_cases)
qed

lemma extractTime_neither:
  assumes "\<not> hasPT (pre @ ''P'')"
    and "\<not> (\<exists>ds r. digits ds \<and> post = ds @ ''H'' @ r)"
    and "\<not> (\<exists>ds r. digits ds \<and> post = ds @ ''M'' @ r)"
  shows "extractTime (JStr (pre @ ''PT'' @ post)) = JStr (pre @ ''PT'' @ post)"
proof -
  have "matchDuration (pre @ ''PT'' @ post) = Some (None, None)"
    using matchDuration_first [OF assms(1), of post] optGroup_miss [OF assms(2)]
      optGroup_miss [OF assms(3)]
    by simp
  then show ?thesis by (simp add: extractTime_cases spec_durationText_def numTruthy_def)
qed

lemma extractTime_no_PT:
  assumes "\<not> hasPT s"
  shows "extractTime (JStr s) = JStr s"
  unfolding extractTime_cases matchDuration_None [OF assms] by simp

lemmas eval_defs =
  extractTime_def extractText_def optGroup_def isDigit_def parseInt_def isWhiteSpace_def
  digitValue_def decDigits_def hexLetters_def digitsValue_def numTruthy_def numberToString_def
  toDouble_def

text \<open>
  The claim C5 as the specification states it fails on the code: in \<^verbatim>\<open>"PT1H0M"\<close> both the
  hours and the minutes are present, and \<^verbatim>\<open>extractTime\<close> returns \<^verbatim>\<open>"1h"\<close>, not \<^verbatim>\<open>"1h 0min"\<close>:
  the tests \<^verbatim>\<open>hours && minutes\<close>, \<^verbatim>\<open>hours\<close> and \<^verbatim>\<open>minutes\<close> take a count of zero for a
  missing one.
\<close>

theorem C5_zero_minutes_counterexample:
  "extractTime (JStr ''PT1H0M'') = JStr ''1h''
   \<and> extractTime (JStr ''PT1H0M'') \<noteq> JStr ''1h 0min''"
  by (simp add: eval_defs)

text \<open>
  C5, amended. \<^verbatim>\<open>extractTime\<close> looks at what follows the first \<^verbatim>\<open>PT\<close> of the string,
  whatever stands before it (\<open>pre\<close>): an hour count, digits \<open>hs\<close> and the letter H, and
  then a minute count, digits \<open>ms\<close> and the letter M, each of which may be missing; what
  follows them (\<open>post\<close>) is not read. With \<open>h\<close> and \<open>m\<close> the numbers that \<^verbatim>\<open>parseInt\<close> makes of
  the digits, and a count that is missing or is 0 taken as absent, the result is
  \<^verbatim>\<open>{h}h {m}min\<close> for two counts, \<^verbatim>\<open>{h}h\<close> for the hours alone, \<^verbatim>\<open>{m}min\<close> for the minutes
  alone, and the string itself when there is no count or no \<^verbatim>\<open>PT\<close>. A count is absent
  exactly when its digits are all zeros; the number of digits that write less than \<open>2^53\<close>
  is that integer and is printed with its decimal digits, without leading zeros; the
  results for such counts are spelled out. The
  examples: the four of the specification, \<^verbatim>\<open>"PT1H0M"\<close>, and strings with a text before
  the \<^verbatim>\<open>PT\<close>, with seconds after the minutes, and with no count at all.
\<close>

theorem C5_duration:
  assumes "digits hs" and "digits ms" and "\<not> hasPT (pre @ ''P'')"
  shows "extractTime (JStr (pre @ ''PT'' @ hs @ ''H'' @ ms @ ''M'' @ post)) =
           spec_durationText (parseInt hs) (parseInt ms)
             (pre @ ''PT'' @ hs @ ''H'' @ ms @ ''M'' @ post)
       \<and> (\<not> (\<exists>ds r. digits ds \<and> post = ds @ ''M'' @ r) \<longrightarrow>
            extractTime (JStr (pre @ ''PT'' @ hs @ ''H'' @ post)) =
              spec_durationText (parseInt hs) (Finite 0) (pre @ ''PT'' @ hs @ ''H'' @ post))
       \<and> extractTime (JStr (pre @ ''PT'' @ ms @ ''M'' @ post)) =
           spec_durationText (Finite 0) (parseInt ms) (pre @ ''PT'' @ ms @ ''M'' @ post)
       \<and> (\<not> (\<exists>ds r. digits ds \<and> post = ds @ ''H'' @ r)
            \<and> \<not> (\<exists>ds r. digits ds \<and> post = ds @ ''M'' @ r) \<longrightarrow>
            extractTime (JStr (pre @ ''PT'' @ post)) = JStr (pre @ ''PT'' @ post))
       \<and> (\<not> hasPT s \<longrightarrow> extractTime (JStr s) = JStr s)
       \<and> (0 < digitsValue 10 hs \<and> digitsValue 10 hs < 2 ^ 53
            \<and> 0 < digitsValue 10 ms \<and> digitsValue 10 ms < 2 ^ 53 \<longrightarrow>
            extractTime (JStr (pre @ ''PT'' @ hs @ ''H'' @ ms @ ''M'' @ post)) =
              JStr (natToString (digitsValue 10 hs) @ ''h ''
                    @ natToString (digitsValue 10 ms) @ ''min''))
       \<and> (0 < digitsValue 10 hs \<and> digitsValue 10 hs < 2 ^ 53 \<and> digitsValue 10 ms = 0 \<longrightarrow>
            extractTime (JStr (pre @ ''PT'' @ hs @ ''H'' @ ms @ ''M'' @ post)) =
              JStr (natToString (digitsValue 10 hs) @ ''h''))
       \<and> (digitsValue 10 hs = 0 \<and> 0 < digitsValue 10 ms \<and> digitsValue 10 ms < 2 ^ 53 \<longrightarrow>
            extractTime (JStr (pre @ ''PT'' @ hs @ ''H'' @ ms @ ''M'' @ post)) =
              JStr (natToString (digitsValue 10 ms) @ ''min''))
       \<and> (digitsValue 10 hs = 0 \<and> digitsValue 10 ms = 0 \<longrightarrow>
            extractTime (JStr (pre @ ''PT'' @ hs @ ''H'' @ ms @ ''M'' @ post)) =
              JStr (pre @ ''PT'' @ hs @ ''H'' @ ms @ ''M'' @ post))
       \<and> (\<not> (\<exists>ds r. digits ds \<and> post = ds @ ''M'' @ r)
            \<and> 0 < digitsValue 10 hs \<and> digitsValue 10 hs < 2 ^ 53 \<longrightarrow>
            extractTime (JStr (pre @ ''PT'' @ hs @ ''H'' @ post)) =
              JStr (natToString (digitsValue 10 hs) @ ''h''))
       \<and> (\<not> (\<exists>ds r. digits ds \<and> post = ds @ ''M'' @ r) \<and> digitsValue 10 hs = 0 \<longrightarrow>
            extractTime (JStr (pre @ ''PT'' @ hs @ ''H'' @ post)) =
              JStr (pre @ ''PT'' @ hs @ ''H'' @ post))
       \<and> (0 < digitsValue 10 ms \<and> digitsValue 10 ms < 2 ^ 53 \<longrightarrow>
            extractTime (JStr (pre @ ''PT'' @ ms @ ''M'' @ post)) =
              JStr (natToString (digitsValue 10 ms) @ ''min''))
       \<and> (digitsValue 10 ms = 0 \<longrightarrow>
            extractTime (JStr (pre @ ''PT'' @ ms @ ''M'' @ post)) =
              JStr (pre @ ''PT'' @ ms @ ''M'' @ post))
       \<and> (numTruthy (parseInt hs) \<longleftrightarrow> 0 < digitsValue 10 hs)
       \<and> (digitsValue 10 hs < 2 ^ 53 \<longrightarrow>
            parseInt hs = Finite (int (digitsValue 10 hs))
            \<and> numberToString (parseInt hs) = natToString (digitsValue 10 hs))
       \<and> extractTime (JStr ''PT1H15M'') = JStr ''1h 15min''
       \<and> extractTime (JStr ''PT45M'') = JStr ''45min''
       \<and> extractTime (JStr ''PT2H'') = JStr ''2h''
       \<and> extractTime (JStr ''bogus'') = JStr ''bogus''
       \<and> extractTime (JStr ''PT1H0M'') = JStr ''1h''
       \<and> extractTime (JStr ''PT0H30M'') = JStr ''30min''
       \<and> extractTime (JStr ''about PT5M'') = JStr ''5min''
       \<and> extractTime (JStr ''PT15M30S'') = JStr ''15min''
       \<and> extractTime (JStr ''PT2H30S'') = JStr ''2h''
       \<and> extractTime (JStr ''PT'') = JStr ''PT''
       \<and> extractTime (JStr ''PT0M'') = JStr ''PT0M''"
proof -
  have e1: "extractTime (JStr ''PT1H15M'') = JStr ''1h 15min''"
    by (simp add: eval_defs)
  have e2: "extractTime (JStr ''PT45M'') = JStr ''45min''"
    by (simp add: eval_defs)
  have e3: "extractTime (JStr ''PT2H'') = JStr ''2h''"
    by (simp add: eval_defs)
  have e4: "extractTime (JStr ''bogus'') = JStr ''bogus''"
    by (simp add: eval_defs)
  have e5: "extractTime (JStr ''PT1H0M'') = JStr ''1h''"
    by (simp add: eval_defs)
  have e6: "extractTime (JStr ''PT0H30M'') = JStr ''30min''"
    by (simp add: eval_defs)
  have e7: "extractTime (JStr ''about PT5M'') = JStr ''5min''"
    by (simp add: eval_defs)
  have e8: "extractTime (JStr ''PT15M30S'') = JStr ''15min''"
    by (simp add: eval_defs)
  have e9: "extractTime (JStr ''PT2H30S'') = JStr ''2h''"
    by (simp add: eval_defs)
  have e10: "extractTime (JStr ''PT'') = JStr ''PT''"
    by (simp add: eval_defs)
  have e11: "extractTime (JStr ''PT0M'') = JStr ''PT0M''"
    by (simp add: eval_defs)
  have s: "digitsValue 10 hs < 2 ^ 53 \<longrightarrow>
            parseInt hs = Finite (int (digitsValue 10 hs))
            \<and> numberToString (parseInt hs) = natToString (digitsValue 10 hs)"
    using parseInt_digits_small [OF assms(1)] by blast
  have b: "\<not> (\<exists>ds r. digits ds \<and> post = ds @ ''M'' @ r) \<longrightarrow>
            extractTime (JStr (pre @ ''PT'' @ hs @ ''H'' @ post)) =
              spec_durationText (parseInt hs) (Finite 0) (pre @ ''PT'' @ hs @ ''H'' @ post)"
    using extractTime_H [OF assms(1,3), of post] by blast
  have d: "\<not> (\<exists>ds r. digits ds \<and> post = ds @ ''H'' @ r)
            \<and> \<not> (\<exists>ds r. digits ds \<and> post = ds @ ''M'' @ r) \<longrightarrow>
            extractTime (JStr (pre @ ''PT'' @ post)) = JStr (pre @ ''PT'' @ post)"
    using extractTime_neither [OF assms(3), of post] by blast
  have e: "\<not> hasPT s \<longrightarrow> extractTime (JStr s) = JStr s"
    using extractTime_no_PT [of s] by blast
  note hm = extractTime_HM [OF assms, of post]
  note mo = extractTime_M [OF assms(2,3), of post]
  note nh = numTruthy_digits [OF assms(1)]
  note nm = numTruthy_digits [OF assms(2)]
  note sh = parseInt_digits_small(2) [OF assms(1)]
  note sm = parseInt_digits_small(2) [OF assms(2)]
  have z: "\<not> numTruthy (Finite 0)"
    by (simp add: numTruthy_def)
  have x1: "0 < digitsValue 10 hs \<and> digitsValue 10 hs < 2 ^ 53
            \<and> 0 < digitsValue 10 ms \<and> digitsValue 10 ms < 2 ^ 53 \<longrightarrow>
            extractTime (JStr (pre @ ''PT'' @ hs @ ''H'' @ ms @ ''M'' @ post)) =
              JStr (natToString (digitsValue 10 hs) @ ''h ''
                    @ natToString (digitsValue 10 ms) @ ''min'')"
    unfolding hm spec_durationText_def nh nm using sh sm by simp
  have x2: "0 < digitsValue 10 hs \<and> digitsValue 10 hs < 2 ^ 53 \<and> digitsValue 10 ms = 0 \<longrightarrow>
            extractTime (JStr (pre @ ''PT'' @ hs @ ''H'' @ ms @ ''M'' @ post)) =
              JStr (natToString (digitsValue 10 hs) @ ''h'')"
    unfolding hm spec_durationText_def nh nm using sh by simp
  have x3: "digitsValue 10 hs = 0 \<and> 0 < digitsValue 10 ms \<and> digitsValue 10 ms < 2 ^ 53 \<longrightarrow>
            extractTime (JStr (pre @ ''PT'' @ hs @ ''H'' @ ms @ ''M'' @ post)) =
              JStr (natToString (digitsValue 10 ms) @ ''min'')"
    unfolding hm spec_durationText_def nh nm using sm by simp
  have x4: "digitsValue 10 hs = 0 \<and> digitsValue 10 ms = 0 \<longrightarrow>
            extractTime (JStr (pre @ ''PT'' @ hs @ ''H'' @ ms @ ''M'' @ post)) =
              JStr (pre @ ''PT'' @ hs @ ''H'' @ ms @ ''M'' @ post)"
    unfolding hm spec_durationText_def nh nm by simp
  have x5: "\<not> (\<exists>ds r. digits ds \<and> post = ds @ ''M'' @ r)
            \<and> 0 < digitsValue 10 hs \<and> digitsValue 10 hs < 2 ^ 53 \<longrightarrow>
            extractTime (JStr (pre @ ''PT'' @ hs @ ''H'' @ post)) =
              JStr (natToString (digitsValue 10 hs) @ ''h'')"
  proof (rule impI)
    assume a: "\<not> (\<exists>ds r. digits ds \<and> post = ds @ ''M'' @ r)
            \<and> 0 < digitsValue 10 hs \<and> digitsValue 10 hs < 2 ^ 53"
    then have n: "\<not> (\<exists>ds r. digits ds \<and> post = ds @ ''M'' @ r)" by (rule conjunct1)
    from a sh show "extractTime (JStr (pre @ ''PT'' @ hs @ ''H'' @ post)) =
              JStr (natToString (digitsValue 10 hs) @ ''h'')"
      unfolding extractTime_H [OF assms(1,3) n] spec_durationText_def nh by (simp add: z)
  qed
  have x6: "\<not> (\<exists>ds r. digits ds \<and> post = ds @ ''M'' @ r) \<and> digitsValue 10 hs = 0 \<longrightarrow>
            extractTime (JStr (pre @ ''PT'' @ hs @ ''H'' @ post)) =
              JStr (pre @ ''PT'' @ hs @ ''H'' @ post)"
  proof (rule impI)
    assume a: "\<not> (\<exists>ds r. digits ds \<and> post = ds @ ''M'' @ r) \<and> digitsValue 10 hs = 0"
    then have n: "\<not> (\<exists>ds r. digits ds \<and> post = ds @ ''M'' @ r)" by (rule conjunct1)
    from a show "extractTime (JStr (pre @ ''PT'' @ hs @ ''H'' @ post)) =
              JStr (pre @ ''PT'' @ hs @ ''H'' @ post)"
      unfolding extractTime_H [OF assms(1,3) n] spec_durationText_def nh by (simp add: z)
  qed
  have x7: "0 < digitsValue 10 ms \<and> digitsValue 10 ms < 2 ^ 53 \<longrightarrow>
            extractTime (JStr (pre @ ''PT'' @ ms @ ''M'' @ post)) =
              JStr (natToString (digitsValue 10 ms) @ ''min'')"
    unfolding mo spec_durationText_def nm using sm by (simp add: z)
  have x8: "digitsValue 10 ms = 0 \<longrightarrow>
            extractTime (JStr (pre @ ''PT'' @ ms @ ''M'' @ post)) =
              JStr (pre @ ''PT'' @ ms @ ''M'' @ post)"
    unfolding mo spec_durationText_def nm by (simp add: z)
  from hm b mo d e x1 x2 x3 x4 x5 x6 x7 x8 nh s e1 e2 e3 e4 e5 e6 e7 e8 e9 e10 e11
  show ?thesis by (intro conjI)
qed

theorem C5_duration_witness:
  "extractTime (JStr ''about PT03H20M later'') = JStr ''3h 20min''
   \<and> extractTime (JStr ''about PT03H later'') = JStr ''3h''
   \<and> extractTime (JStr ''about PT20M later'') = JStr ''20min''
   \<and> extractTime (JStr ''about PT later'') = JStr ''about PT later''
   \<and> extractTime (JStr ''1 hour'') = JStr ''1 hour''"
proof -
  have hs: "digits ''03''" and ms: "digits ''20''"
    by (simp_all add: digits_def isDigit_def)
  have pre: "\<not> hasPT (''about '' @ ''P'')" and no: "\<not> hasPT ''1 hour''"
    by simp_all
  have post: "\<not> (\<exists>ds r. digits ds \<and> '' later'' = ds @ ''H'' @ r)"
    "\<not> (\<exists>ds r. digits ds \<and> '' later'' = ds @ ''M'' @ r)"
    by (auto simp: digits_def isDigit_def Cons_eq_append_conv)
  have v: "digitsValue 10 ''03'' = 3" "digitsValue 10 ''20'' = 20"
    by (simp_all add: digitsValue_def digitValue_def decDigits_def)
  have p: "parseInt ''03'' = Finite 3" "parseInt ''20'' = Finite 20"
    by (simp_all add: parseInt_def isWhiteSpace_def digitValue_def decDigits_def digitsValue_def
          toDouble_def)
  show ?thesis
    using C5_duration [OF hs ms pre, of "'' later''" "''1 hour''"] post no
    by (simp add: p spec_durationText_def numTruthy_def numberToString_def)
qed

section \<open>C7: the cleanup of the instructions\<close>

lemma trim_dropWhile: "trim (dropWhile isWhiteSpace s) = trim s"
  by (simp add: trim_def)

lemma stripOrdinal_hit:
  assumes "digits ds"
  shows "stripOrdinal (ds @ ''.'' @ rest) = dropWhile isWhiteSpace rest"
proof -
  have nd: "\<not> isDigit CHR ''.''" by (simp add: isDigit_def)
  from assms have "list_all isDigit ds" "ds \<noteq> []" by (simp_all add: digits_def)
  then show ?thesis
    using takeWhile_digits [of ds "CHR ''.''" rest] dropWhile_digits [of ds "CHR ''.''" rest] nd
    by (simp add: stripOrdinal_def)
qed

lemma stripOrdinal_miss:
  assumes "\<not> (\<exists>ds rest. digits ds \<and> s = ds @ ''.'' @ rest)"
  shows "stripOrdinal s = s"
proof (rule ccontr)
  assume ne: "stripOrdinal s \<noteq> s"
  let ?ds = "takeWhile isDigit s" and ?r = "dropWhile isDigit s"
  from ne have a: "?ds \<noteq> []" and b: "take 1 ?r = ''.''"
    by (auto simp: stripOrdinal_def Let_def split: if_splits)
  from b have "?r = ''.'' @ drop 1 ?r"
    by (cases ?r) auto
  then have "s = ?ds @ ''.'' @ drop 1 ?r"
    by (metis takeWhile_dropWhile_id)
  moreover have "digits ?ds"
    using a by (auto simp: digits_def list_all_iff dest: set_takeWhileD)
  ultimately show False using assms by blast
qed

lemma last_dropWhile: "dropWhile P xs \<noteq> [] \<Longrightarrow> last (dropWhile P xs) = last xs"
  by (induction xs) (auto split: if_splits)

lemma trim_ends:
  "trim s = [] \<or> (\<not> isWhiteSpace (hd (trim s)) \<and> \<not> isWhiteSpace (last (trim s)))"
proof (cases "trim s = []")
  case True
  then show ?thesis by simp
next
  case False
  let ?t = "dropWhile isWhiteSpace s"
  let ?u = "dropWhile isWhiteSpace (rev ?t)"
  from False have u: "?u \<noteq> []" by (simp add: trim_def)
  have t: "?t \<noteq> []"
  proof
    assume e: "?t = []"
    have "?u = []" unfolding e by simp
    with u show False by blast
  qed
  have "\<not> isWhiteSpace (hd ?u)" using u by (rule hd_dropWhile)
  then have l: "\<not> isWhiteSpace (last (trim s))"
    using u by (simp add: trim_def last_rev)
  have "last ?u = last (rev ?t)" using u by (rule last_dropWhile)
  also have "\<dots> = hd ?t" using t by (simp add: last_rev)
  finally have "hd (trim s) = hd ?t"
    using u by (simp add: trim_def hd_rev)
  moreover have "\<not> isWhiteSpace (hd ?t)" using t by (rule hd_dropWhile)
  ultimately show ?thesis using l by simp
qed

lemma mapInstructions_Inr:
  "mapInstructions xs = Inr ys \<Longrightarrow>
     \<exists>raw. xs = map JStr raw \<and> ys = map (\<lambda>s. JStr (trim (stripOrdinal s))) raw"
proof (induction xs arbitrary: ys)
  case Nil
  then show ?case by simp
next
  case (Cons x xs)
  from Cons.prems obtain s zs where x: "x = JStr s" and zs: "mapInstructions xs = Inr zs"
    and ys: "ys = JStr (trim (stripOrdinal s)) # zs"
    by (auto simp: cleanInstruction_def split: sum.splits jsval.splits)
  from Cons.IH [OF zs] obtain raw where "xs = map JStr raw"
    "zs = map (\<lambda>s. JStr (trim (stripOrdinal s))) raw" by blast
  with x ys have "x # xs = map JStr (s # raw) \<and> ys = map (\<lambda>s. JStr (trim (stripOrdinal s))) (s # raw)"
    by simp
  then show ?case by (intro exI [of _ "s # raw"])
qed

text \<open>
  The claim C7 as the specification states it fails on the code. The ordinal is looked
  for at the very start of the entry and before the entry is trimmed, so \<^verbatim>\<open>" 1. Lead"\<close>
  keeps its ordinal; and the white space after the period is optional, so
  \<^verbatim>\<open>"1.5 cups of flour"\<close> loses \<^verbatim>\<open>"1."\<close> though no white space follows the period.
\<close>

theorem C7_leading_ordinal_counterexample:
  "map_sum id instructions (parseJsonLdRecipe lead_recipe)
     = Inr (JArr [JStr ''1. Lead'', JStr ''5 cups of flour''])
   \<and> map_sum id instructions (parseJsonLdRecipe lead_recipe)
     \<noteq> Inr (JArr [JStr ''Lead'', JStr ''1.5 cups of flour''])"
  by (simp add: lead_recipe_def parseJsonLdRecipe_def extractArray_def extractText_def
        cleanInstruction_def stripOrdinal_def trim_def isDigit_def isWhiteSpace_def)

text \<open>
  C7, amended: when \<^verbatim>\<open>parseJsonLdRecipe\<close> maps a recipe that has instructions, the
  instruction list has one entry for every entry of the normalized instruction field,
  in order. An entry that begins, at its very first character, with digits and a period
  becomes what follows the period, trimmed (white space after the period is not
  required); every other entry, also one with white space before its ordinal, is only
  trimmed. No entry begins or ends with white space. A recipe with no instructions has
  the empty list. \<^verbatim>\<open>"1. Preheat the oven"\<close> gives \<^verbatim>\<open>"Preheat the oven"\<close>, \<^verbatim>\<open>"  Mix well  "\<close>
  gives \<^verbatim>\<open>"Mix well"\<close>, \<^verbatim>\<open>" 1. Lead"\<close> gives \<^verbatim>\<open>"1. Lead"\<close> and \<^verbatim>\<open>"1.5 cups"\<close> gives \<^verbatim>\<open>"5 cups"\<close>.
\<close>

theorem C7_instruction_cleanup:
  assumes "parseJsonLdRecipe recipe = Inr r"
  shows "(truthy (propOf recipe ''recipeInstructions'') \<longrightarrow>
           (\<exists>raw outs.
              spec_list (propOf recipe ''recipeInstructions'') = map JStr raw
              \<and> instructions r = JArr (map JStr outs)
              \<and> length outs = length raw
              \<and> (\<forall>i<length raw.
                    (\<forall>ds rest. digits ds \<and> raw ! i = ds @ ''.'' @ rest \<longrightarrow> outs ! i = trim rest)
                    \<and> (\<not> (\<exists>ds rest. digits ds \<and> raw ! i = ds @ ''.'' @ rest) \<longrightarrow>
                         outs ! i = trim (raw ! i))
                    \<and> (outs ! i = []
                         \<or> (\<not> isWhiteSpace (hd (outs ! i)) \<and> \<not> isWhiteSpace (last (outs ! i)))))))
       \<and> (\<not> truthy (propOf recipe ''recipeInstructions'') \<longrightarrow> instructions r = JArr [])
       \<and> cleanInstruction (JStr ''1. Preheat the oven'') = Inr (JStr ''Preheat the oven'')
       \<and> cleanInstruction (JStr ''  Mix well  '') = Inr (JStr ''Mix well'')
       \<and> cleanInstruction (JStr '' 1. Lead'') = Inr (JStr ''1. Lead'')
       \<and> cleanInstruction (JStr ''1.5 cups'') = Inr (JStr ''5 cups'')"
proof -
  have 1: "truthy (propOf recipe ''recipeInstructions'') \<longrightarrow> (\<exists>raw outs.
              spec_list (propOf recipe ''recipeInstructions'') = map JStr raw
              \<and> instructions r = JArr (map JStr outs)
              \<and> length outs = length raw
              \<and> (\<forall>i<length raw.
                    (\<forall>ds rest. digits ds \<and> raw ! i = ds @ ''.'' @ rest \<longrightarrow> outs ! i = trim rest)
                    \<and> (\<not> (\<exists>ds rest. digits ds \<and> raw ! i = ds @ ''.'' @ rest) \<longrightarrow>
                         outs ! i = trim (raw ! i))
                    \<and> (outs ! i = []
                         \<or> (\<not> isWhiteSpace (hd (outs ! i)) \<and> \<not> isWhiteSpace (last (outs ! i))))))"
  proof (rule impI)
    assume t: "truthy (propOf recipe ''recipeInstructions'')"
    from assms t obtain steps where
      m: "mapInstructions (extractArray (propOf recipe ''recipeInstructions'')) = Inr steps"
      and i: "instructions r = JArr steps"
      by (auto simp: parseJsonLdRecipe_def split: if_splits sum.splits)
    from mapInstructions_Inr [OF m] obtain raw where
      raw: "extractArray (propOf recipe ''recipeInstructions'') = map JStr raw"
      and steps: "steps = map (\<lambda>s. JStr (trim (stripOrdinal s))) raw"
      by blast
    define outs where "outs = map (\<lambda>s. trim (stripOrdinal s)) raw"
    have a: "spec_list (propOf recipe ''recipeInstructions'') = map JStr raw"
      using raw by (simp only: extractArray_spec)
    have b: "instructions r = JArr (map JStr outs)"
      by (simp add: i steps outs_def)
    have c: "length outs = length raw"
      by (simp add: outs_def)
    have d: "(\<forall>ds rest. digits ds \<and> raw ! i = ds @ ''.'' @ rest \<longrightarrow> outs ! i = trim rest)
          \<and> (\<not> (\<exists>ds rest. digits ds \<and> raw ! i = ds @ ''.'' @ rest) \<longrightarrow> outs ! i = trim (raw ! i))
          \<and> (outs ! i = [] \<or> (\<not> isWhiteSpace (hd (outs ! i)) \<and> \<not> isWhiteSpace (last (outs ! i))))"
      if "i < length raw" for i
    proof -
      have o: "outs ! i = trim (stripOrdinal (raw ! i))"
        using that by (simp add: outs_def)
      have "outs ! i = trim rest" if "digits ds" "raw ! i = ds @ ''.'' @ rest" for ds rest
        unfolding o that(2) by (simp only: stripOrdinal_hit [OF that(1)] trim_dropWhile)
      moreover have "outs ! i = trim (raw ! i)"
        if "\<not> (\<exists>ds rest. digits ds \<and> raw ! i = ds @ ''.'' @ rest)"
        unfolding o by (simp only: stripOrdinal_miss [OF that])
      moreover have "outs ! i = [] \<or> (\<not> isWhiteSpace (hd (outs ! i)) \<and> \<not> isWhiteSpace (last (outs ! i)))"
        unfolding o by (rule trim_ends)
      ultimately show ?thesis by blast
    qed
    from a b c d show "\<exists>raw outs.
              spec_list (propOf recipe ''recipeInstructions'') = map JStr raw
              \<and> instructions r = JArr (map JStr outs)
              \<and> length outs = length raw
              \<and> (\<forall>i<length raw.
                    (\<forall>ds rest. digits ds \<and> raw ! i = ds @ ''.'' @ rest \<longrightarrow> outs ! i = trim rest)
                    \<and> (\<not> (\<exists>ds rest. digits ds \<and> raw ! i = ds @ ''.'' @ rest) \<longrightarrow>
                         outs ! i = trim (raw ! i))
                    \<and> (outs ! i = []
                         \<or> (\<not> isWhiteSpace (hd (outs ! i)) \<and> \<not> isWhiteSpace (last (outs ! i)))))"
      by blast
  qed
  have 2: "\<not> truthy (propOf recipe ''recipeInstructions'') \<longrightarrow> instructions r = JArr []"
    using assms by (auto simp: parseJsonLdRecipe_def split: if_splits)
  have 3: "cleanInstruction (JStr ''1. Preheat the oven'') = Inr (JStr ''Preheat the oven'')"
    by (simp add: cleanInstruction_def stripOrdinal_def trim_def isDigit_def isWhiteSpace_def)
  have 4: "cleanInstruction (JStr ''  Mix well  '') = Inr (JStr ''Mix well'')"
    by (simp add: cleanInstruction_def stripOrdinal_def trim_def isDigit_def isWhiteSpace_def)
  have 5: "cleanInstruction (JStr '' 1. Lead'') = Inr (JStr ''1. Lead'')"
    by (simp add: cleanInstruction_def stripOrdinal_def trim_def isDigit_def isWhiteSpace_def)
  have 6: "cleanInstruction (JStr ''1.5 cups'') = Inr (JStr ''5 cups'')"
    by (simp add: cleanInstruction_def stripOrdinal_def trim_def isDigit_def isWhiteSpace_def)
  from 1 2 3 4 5 6 show ?thesis by (intro conjI)
qed

theorem C7_instruction_cleanup_witness:
  "(\<exists>r. parseJsonLdRecipe steps_recipe = Inr r
        \<and> instructions r = JArr [JStr ''Preheat the oven'', JStr ''Mix well''])
   \<and> (\<exists>r. parseJsonLdRecipe cake = Inr r \<and> instructions r = JArr [])"
proof -
  obtain r where r: "parseJsonLdRecipe steps_recipe = Inr r"
    by (simp add: steps_recipe_def parseJsonLdRecipe_def extractArray_def extractText_def
          cleanInstruction_def)
  have t: "truthy (propOf steps_recipe ''recipeInstructions'')"
    by (simp add: steps_recipe_def)
  have e: "spec_list (propOf steps_recipe ''recipeInstructions'')
             = [JStr ''1. Preheat the oven'', JStr ''  Mix well  '']"
    by (simp add: steps_recipe_def)
  have d: "digits ''1''"
    by (simp add: digits_def isDigit_def)
  have n: "\<not> (\<exists>ds rest. digits ds \<and> ''  Mix well  '' = ds @ ''.'' @ rest)"
    by (auto simp: digits_def isDigit_def Cons_eq_append_conv)
  have tr: "trim '' Preheat the oven'' = ''Preheat the oven''" "trim ''  Mix well  '' = ''Mix well''"
    by (simp_all add: trim_def isWhiteSpace_def)
  from C7_instruction_cleanup [OF r] t
  obtain raw outs where raw: "map JStr raw = [JStr ''1. Preheat the oven'', JStr ''  Mix well  '']"
    and i: "instructions r = JArr (map JStr outs)"
    and l: "length outs = length raw"
    and a: "\<forall>i<length raw.
              (\<forall>ds rest. digits ds \<and> raw ! i = ds @ ''.'' @ rest \<longrightarrow> outs ! i = trim rest)
              \<and> (\<not> (\<exists>ds rest. digits ds \<and> raw ! i = ds @ ''.'' @ rest) \<longrightarrow> outs ! i = trim (raw ! i))
              \<and> (outs ! i = [] \<or> (\<not> isWhiteSpace (hd (outs ! i)) \<and> \<not> isWhiteSpace (last (outs ! i))))"
    unfolding e by metis
  from raw have rw: "raw = [''1. Preheat the oven'', ''  Mix well  '']"
    by (auto simp: map_eq_Cons_conv)
  from a [rule_format, of 0] rw d have o0: "outs ! 0 = trim '' Preheat the oven''"
    by (auto simp: nth_Cons')
  from a [rule_format, of 1] rw n have o1: "outs ! 1 = trim ''  Mix well  ''"
    by simp
  from l rw obtain x y where xy: "outs = [x, y]"
    by (cases outs; cases "tl outs") auto
  with o0 o1 tr i have 1: "instructions r = JArr [JStr ''Preheat the oven'', JStr ''Mix well'']"
    by simp
  obtain c where c: "parseJsonLdRecipe cake = Inr c"
    by (simp add: cake_def parseJsonLdRecipe_def)
  from C7_instruction_cleanup [OF c] have 2: "instructions c = JArr []"
    by (simp add: cake_def)
  from r 1 c 2 show ?thesis by blast
qed

section \<open>C8: the heuristic selector extractor\<close>

lemma findMultiple_none:
  "(\<forall>s \<in> set sels. textsOf (doc s) = []) \<Longrightarrow> findMultipleTextBySelectors doc sels = []"
  by (induction sels) auto

lemma findMultiple_first:
  "(\<forall>s \<in> set pre. textsOf (doc s) = []) \<Longrightarrow> textsOf (doc w) \<noteq> [] \<Longrightarrow>
     findMultipleTextBySelectors doc (pre @ w # post) = textsOf (doc w)"
  by (induction pre) (auto simp: textsOf_def)

lemma findText_none:
  "(\<forall>s \<in> set sels. textsOf (doc s) = []) \<Longrightarrow> findTextBySelectors doc sels = []"
proof (induction sels)
  case Nil
  then show ?case by simp
next
  case (Cons s sels)
  then have "textsOf (doc s) = []" by simp
  then have "doc s = e # es \<Longrightarrow> trim (el_text e) = []" for e es
    by (auto simp: textsOf_def split: if_splits)
  with Cons show ?case by (auto split: list.splits)
qed

lemma trim_fixed:
  assumes "t \<noteq> []" and "\<not> isWhiteSpace (hd t)" and "\<not> isWhiteSpace (last t)"
  shows "trim t = t"
proof -
  from assms(1,2) have a: "dropWhile isWhiteSpace t = t"
    by (cases t) auto
  from assms(1,3) have "dropWhile isWhiteSpace (rev t) = rev t"
    by (cases "rev t") (auto simp: hd_rev [symmetric])
  with a show ?thesis by (simp add: trim_def)
qed

lemma trim_idem: "trim (trim s) = trim s"
proof (cases "trim s = []")
  case True
  have "trim [] = []" by (simp add: trim_def)
  with True show ?thesis by simp
next
  case False
  with trim_ends [of s] show ?thesis by (intro trim_fixed) simp_all
qed

lemma findText_trimmed: "\<exists>x. findTextBySelectors doc sels = trim x"
proof (induction sels)
  case Nil
  have "findTextBySelectors doc [] = trim []" by (simp add: trim_def)
  then show ?case by blast
next
  case (Cons s sels)
  then show ?case by (auto split: list.splits)
qed

lemma common_Some:
  assumes "extractFromCommonSelectors doc = Some r"
  shows "ingredients r = JArr (map JStr (findMultipleTextBySelectors doc ingredientSelectors))
        \<and> instructions r = JArr (map JStr (findMultipleTextBySelectors doc instructionSelectors))
        \<and> truthy (title r)
        \<and> (ingredients r \<noteq> JArr [] \<or> instructions r \<noteq> JArr [])"
proof -
  obtain x where x: "findTextBySelectors doc titleSelectors = trim x"
    using findText_trimmed by blast
  from assms have ne: "trim x \<noteq> []"
    by (auto simp: extractFromCommonSelectors_def Let_def x split: if_splits)
  from assms ne show ?thesis
    by (auto simp: extractFromCommonSelectors_def Let_def x trim_idem split: if_splits)
qed

lemma common_no_title:
  "(\<forall>s \<in> set titleSelectors. textsOf (doc s) = []) \<Longrightarrow> extractFromCommonSelectors doc = None"
  by (simp add: extractFromCommonSelectors_def findText_none)

lemma common_no_lists:
  "findMultipleTextBySelectors doc ingredientSelectors = [] \<Longrightarrow>
   findMultipleTextBySelectors doc instructionSelectors = [] \<Longrightarrow>
   extractFromCommonSelectors doc = None"
  by (simp add: extractFromCommonSelectors_def Let_def)

text \<open>
  C8: \<^verbatim>\<open>findMultipleTextBySelectors\<close> returns the non-empty trimmed texts of the first
  selector of its list that has any, all of them and nothing of another selector, and
  the empty list when no selector has one. When \<^verbatim>\<open>extractFromCommonSelectors\<close> returns a
  recipe, its ingredients and its instructions are these lists for the two candidate
  lists, its title is not empty and one of the two lists is not empty. It returns
  \<^verbatim>\<open>null\<close> when no title selector yields a non-empty text, and when both lists are empty.
\<close>

theorem C8_selectors:
  "((\<forall>s \<in> set pre. textsOf (doc s) = []) \<and> textsOf (doc w) \<noteq> [] \<longrightarrow>
      findMultipleTextBySelectors doc (pre @ w # post) = textsOf (doc w))
   \<and> ((\<forall>s \<in> set sels. textsOf (doc s) = []) \<longrightarrow> findMultipleTextBySelectors doc sels = [])
   \<and> (extractFromCommonSelectors doc = Some r \<longrightarrow>
        ingredients r = JArr (map JStr (findMultipleTextBySelectors doc ingredientSelectors))
        \<and> instructions r = JArr (map JStr (findMultipleTextBySelectors doc instructionSelectors))
        \<and> truthy (title r)
        \<and> (ingredients r \<noteq> JArr [] \<or> instructions r \<noteq> JArr []))
   \<and> ((\<forall>s \<in> set titleSelectors. textsOf (doc s) = []) \<longrightarrow> extractFromCommonSelectors doc = None)
   \<and> (findMultipleTextBySelectors doc ingredientSelectors = []
        \<and> findMultipleTextBySelectors doc instructionSelectors = [] \<longrightarrow>
        extractFromCommonSelectors doc = None)"
  using findMultiple_first [of pre doc w post] findMultiple_none [of sels doc]
    common_Some [of doc r] common_no_title [of doc] common_no_lists [of doc]
  by blast

theorem C8_selectors_witness:
  "\<exists>r. extractFromCommonSelectors selector_page = Some r
      \<and> title r = JStr ''Pancakes''
      \<and> ingredients r = JArr [JStr ''flour'', JStr ''milk'', JStr ''eggs'']
      \<and> instructions r = JArr [JStr ''Mix'', JStr ''Bake'']
      \<and> extractFromCommonSelectors empty_page = None
      \<and> extractFromCommonSelectors title_only_page = None"
proof -
  have tr: "trim '' Pancakes '' = ''Pancakes''" "trim '' flour '' = ''flour''" "trim '' '' = []"
    "trim ''milk'' = ''milk''" "trim ''eggs'' = ''eggs''" "trim ''  '' = []"
    "trim ''Mix'' = ''Mix''" "trim ''Bake'' = ''Bake''" "trim ''Pancakes'' = ''Pancakes''"
    "trim ''sugar'' = ''sugar''"
    by (simp_all add: trim_def isWhiteSpace_def)
  obtain r where r: "extractFromCommonSelectors selector_page = Some r"
    and t: "title r = JStr ''Pancakes''"
    by (simp add: extractFromCommonSelectors_def titleSelectors_def ingredientSelectors_def
          instructionSelectors_def selector_page_def page_def leaf_def textsOf_def tr)
  have i1: "\<forall>s \<in> set [''.recipe-ingredient'']. textsOf (selector_page s) = []"
    by (simp add: selector_page_def page_def textsOf_def)
  have i2: "textsOf (selector_page ''.ingredient'') = [''flour'', ''milk'', ''eggs'']"
    by (simp add: selector_page_def page_def leaf_def textsOf_def tr)
  have n1: "\<forall>s \<in> set [''.recipe-instruction'', ''.instruction'']. textsOf (selector_page s) = []"
    by (simp add: selector_page_def page_def leaf_def textsOf_def tr)
  have n2: "textsOf (selector_page ''.recipe-instructions li'') = [''Mix'', ''Bake'']"
    by (simp add: selector_page_def page_def leaf_def textsOf_def tr)
  have a: "findMultipleTextBySelectors selector_page ingredientSelectors = [''flour'', ''milk'', ''eggs'']"
    using C8_selectors [of "[''.recipe-ingredient'']" selector_page "''.ingredient''"
        "[''.recipe-ingredients li'', ''[class*=\"ingredient\"]'', ''.ingredients li'']"] i1 i2
    by (simp add: ingredientSelectors_def)
  have b: "findMultipleTextBySelectors selector_page instructionSelectors = [''Mix'', ''Bake'']"
    using C8_selectors [of "[''.recipe-instruction'', ''.instruction'']" selector_page
        "''.recipe-instructions li''"
        "[''.recipe-method li'', ''[class*=\"instruction\"]'', ''.directions li'']"] n1 n2
    by (simp add: instructionSelectors_def)
  have e: "\<forall>s \<in> set titleSelectors. textsOf (empty_page s) = []"
    by (simp add: empty_page_def page_def textsOf_def)
  have n: "extractFromCommonSelectors empty_page = None"
    using C8_selectors [of _ empty_page] e by blast
  have l: "\<forall>s \<in> set ingredientSelectors. textsOf (title_only_page s) = []"
    "\<forall>s \<in> set instructionSelectors. textsOf (title_only_page s) = []"
    by (simp_all add: title_only_page_def page_def textsOf_def ingredientSelectors_def
          instructionSelectors_def)
  have "findMultipleTextBySelectors title_only_page ingredientSelectors = []"
    "findMultipleTextBySelectors title_only_page instructionSelectors = []"
    using C8_selectors [of _ title_only_page _ _ ingredientSelectors]
      C8_selectors [of _ title_only_page _ _ instructionSelectors] l by blast+
  then have o: "extractFromCommonSelectors title_only_page = None"
    using C8_selectors [of _ title_only_page] by blast
  from C8_selectors [of _ selector_page _ _ _ r] r a b t n o show ?thesis
    by simp
qed

section \<open>C10: the servings of the microdata extractor\<close>

lemma parseInt_undefined: "parseInt ''undefined'' = NaN"
  by (simp add: parseInt_def isWhiteSpace_def digitValue_def decDigits_def)

lemma digitValue_isDigit: "digitValue 10 c = None \<longleftrightarrow> \<not> isDigit c"
  by (auto simp: isDigit_def digitValue_def decDigits_def)

lemma parseInt_no_number:
  assumes "y \<noteq> []" and "\<not> isWhiteSpace (hd y)" and "\<not> isDigit (hd y)"
    and "hd y \<noteq> CHR ''+''" and "hd y \<noteq> CHR ''-''"
  shows "parseInt y = NaN"
proof -
  from assms(1) obtain c cs where y: "y = c # cs" by (cases y) auto
  with assms have c: "\<not> isWhiteSpace c" "\<not> isDigit c" "c \<noteq> CHR ''+''" "c \<noteq> CHR ''-''"
    by simp_all
  then have z: "c \<noteq> CHR ''0''" by (auto simp: isDigit_def)
  from c(2) have d: "digitValue 10 c = None" by (simp add: digitValue_isDigit)
  from c z show ?thesis
    by (simp add: parseInt_def y Let_def d)
qed

lemma nines_value:
  "foldl (\<lambda>acc c. acc * 10 + the (digitValue 10 c)) a (replicate n CHR ''9'') + 1
     = (a + 1) * 10 ^ n"
proof (induction n arbitrary: a)
  case 0
  show ?case by simp
next
  case (Suc n)
  have "the (digitValue 10 CHR ''9'') = 9"
    by (simp add: digitValue_def decDigits_def)
  with Suc [of "a * 10 + 9"] show ?case by (simp add: algebra_simps)
qed

lemma parseInt_nines: "parseInt (replicate 310 CHR ''9'') = Infinity False"
proof -
  have d: "digits (replicate 310 CHR ''9'')"
    by (simp add: digits_def isDigit_def list_all_iff)
  have "digitsValue 10 (replicate 310 CHR ''9'') + 1 = 10 ^ 310"
    using nines_value [of 0 310] by (simp only: digitsValue_def) simp
  moreover have "(2::nat) ^ 1024 < 10 ^ 310" by simp
  ultimately have "2 ^ 1024 \<le> digitsValue 10 (replicate 310 CHR ''9'')" by linarith
  then show ?thesis
    by (simp only: parseInt_digits [OF d] toDouble_overflow option.case)
qed

lemma microdata_servings:
  assumes "extractFromMicrodata doc = Some r"
    and \<open>doc ''[itemtype*="schema.org/Recipe"]'' = recipeElement # others\<close>
  shows "servings r =
           (case parseIntOpt (firstOpt (extractProp recipeElement ''recipeYield'')) of
              NaN \<Rightarrow> JUndefined
            | Finite n \<Rightarrow> if n = 0 then JUndefined else JNum (of_int n)
            | Infinity negative \<Rightarrow> JInfinity negative)"
  using assms by (auto simp: extractFromMicrodata_def split: if_splits)

lemma microdata_yield_page:
  assumes "trim y = y" and "y \<noteq> []"
  shows "\<exists>r. extractFromMicrodata (yield_page y) = Some r
          \<and> extractProp (hd (yield_page y ''[itemtype*=\"schema.org/Recipe\"]'')) ''recipeYield'' = [y]
          \<and> (\<exists>others. yield_page y ''[itemtype*=\"schema.org/Recipe\"]''
                = hd (yield_page y ''[itemtype*=\"schema.org/Recipe\"]'') # others)"
proof -
  have tr: "trim ''Soup'' = ''Soup''"
    by (simp add: trim_def isWhiteSpace_def)
  let ?el = "Element ''Soup'' None (\<lambda>a. None)
               (page [(''[itemprop=\"name\"]'', [leaf ''Soup'']),
                      (''[itemprop=\"recipeYield\"]'', [leaf y])])"
  have sel: "yield_page y ''[itemtype*=\"schema.org/Recipe\"]'' = ?el # []"
    by (simp add: yield_page_def page_def)
  have ex: "extractProp ?el ''recipeYield'' = [y]"
    using assms by (simp add: extractProp_def page_def propText_def leaf_def)
  have "\<exists>r. extractFromMicrodata (yield_page y) = Some r"
    by (simp add: extractFromMicrodata_def sel extractProp_def page_def propText_def leaf_def
          first_def tr)
  with ex show ?thesis unfolding sel by simp
qed

text \<open>
  The claim C10 as stated fails on the code: \<^verbatim>\<open>parseInt\<close> returns a double, and for a yield
  of 310 nines that double is Infinity, which \<^verbatim>\<open>|| undefined\<close> lets through: the servings
  are neither absent nor an integer.
\<close>

theorem C10_infinite_servings_counterexample:
  "map_option servings (extractFromMicrodata (yield_page (replicate 310 CHR ''9'')))
     = Some (JInfinity False)"
proof -
  let ?y = "replicate 310 CHR ''9''"
  have ne: "?y \<noteq> []" by simp
  have "hd ?y = CHR ''9''" "last ?y = CHR ''9''"
    by (simp_all add: hd_replicate last_replicate)
  then have "trim ?y = ?y"
    using ne by (intro trim_fixed) (simp_all add: isWhiteSpace_def)
  from microdata_yield_page [OF this ne] obtain r others where
    r: "extractFromMicrodata (yield_page ?y) = Some r"
    and ex: "extractProp (hd (yield_page ?y ''[itemtype*=\"schema.org/Recipe\"]'')) ''recipeYield'' = [?y]"
    and sel: "yield_page ?y ''[itemtype*=\"schema.org/Recipe\"]''
                = hd (yield_page ?y ''[itemtype*=\"schema.org/Recipe\"]'') # others"
    by blast
  from microdata_servings [OF r sel] have "servings r = JInfinity False"
    unfolding ex by (simp add: firstOpt_def parseIntOpt_def parseInt_nines)
  with r show ?thesis by simp
qed

text \<open>
  C10, amended: the servings of a result of \<^verbatim>\<open>extractFromMicrodata\<close> are \<^verbatim>\<open>undefined\<close>, or a
  number that is a nonzero integer, or an infinity; never 0. They are \<^verbatim>\<open>undefined\<close>
  when the recipe element has no yield value, and for a first yield value \<open>y\<close> they are
  \<^verbatim>\<open>undefined\<close> when \<^verbatim>\<open>parseInt(y)\<close> is NaN or 0 and \<^verbatim>\<open>parseInt(y)\<close> otherwise. A value that
  begins with neither white space, a sign nor a digit is NaN. A value of digits only is
  0 when the digits are zeros, the integer they write when that is below \<open>2^53\<close>, and
  Infinity when it is \<open>2^1024\<close> or more. The text \<^verbatim>\<open>"0"\<close> parses to 0. The coercion
  \<^verbatim>\<open>extractNumber\<close> of the structured-data extractor returns 0 for the number 0 and for
  the text \<^verbatim>\<open>"0"\<close>.
\<close>

theorem C10_microdata_servings:
  assumes "extractFromMicrodata doc = Some r"
    and \<open>doc ''[itemtype*="schema.org/Recipe"]'' = recipeElement # others\<close>
  shows "(servings r = JUndefined
            \<or> (\<exists>n::int. n \<noteq> 0 \<and> servings r = JNum (of_int n))
            \<or> (\<exists>negative. servings r = JInfinity negative))
       \<and> servings r \<noteq> JNum 0
       \<and> (extractProp recipeElement ''recipeYield'' = [] \<longrightarrow> servings r = JUndefined)
       \<and> (\<forall>y ys. extractProp recipeElement ''recipeYield'' = y # ys \<longrightarrow>
            servings r = (case parseInt y of
                            NaN \<Rightarrow> JUndefined
                          | Finite n \<Rightarrow> if n = 0 then JUndefined else JNum (of_int n)
                          | Infinity negative \<Rightarrow> JInfinity negative))
       \<and> (\<forall>y ys. extractProp recipeElement ''recipeYield'' = y # ys
              \<and> y \<noteq> [] \<and> \<not> isWhiteSpace (hd y) \<and> \<not> isDigit (hd y)
              \<and> hd y \<noteq> CHR ''+'' \<and> hd y \<noteq> CHR ''-'' \<longrightarrow>
            servings r = JUndefined)
       \<and> (\<forall>ds ys. extractProp recipeElement ''recipeYield'' = ds # ys \<and> digits ds \<longrightarrow>
            (digitsValue 10 ds = 0 \<longrightarrow> servings r = JUndefined)
            \<and> (0 < digitsValue 10 ds \<and> digitsValue 10 ds < 2 ^ 53 \<longrightarrow>
                 servings r = JNum (of_nat (digitsValue 10 ds)))
            \<and> (2 ^ 1024 \<le> digitsValue 10 ds \<longrightarrow> servings r = JInfinity False))
       \<and> parseInt ''0'' = Finite 0
       \<and> extractNumber (JNum 0) = JNum 0
       \<and> extractNumber (JStr ''0'') = JNum 0"
proof -
  note s = microdata_servings [OF assms]
  have 1: "servings r = JUndefined
            \<or> (\<exists>n::int. n \<noteq> 0 \<and> servings r = JNum (of_int n))
            \<or> (\<exists>negative. servings r = JInfinity negative)"
    unfolding s by (auto split: number.splits)
  have 2: "servings r \<noteq> JNum 0"
    unfolding s by (auto split: number.splits)
  have 3: "extractProp recipeElement ''recipeYield'' = [] \<longrightarrow> servings r = JUndefined"
    unfolding s by (simp add: firstOpt_def parseIntOpt_def parseInt_undefined)
  have 4: "\<forall>y ys. extractProp recipeElement ''recipeYield'' = y # ys \<longrightarrow>
            servings r = (case parseInt y of
                            NaN \<Rightarrow> JUndefined
                          | Finite n \<Rightarrow> if n = 0 then JUndefined else JNum (of_int n)
                          | Infinity negative \<Rightarrow> JInfinity negative)"
    unfolding s by (simp add: firstOpt_def parseIntOpt_def)
  have 5: "\<forall>y ys. extractProp recipeElement ''recipeYield'' = y # ys
              \<and> y \<noteq> [] \<and> \<not> isWhiteSpace (hd y) \<and> \<not> isDigit (hd y)
              \<and> hd y \<noteq> CHR ''+'' \<and> hd y \<noteq> CHR ''-'' \<longrightarrow>
            servings r = JUndefined"
    using 4 by (auto simp: parseInt_no_number)
  have 6: "\<forall>ds ys. extractProp recipeElement ''recipeYield'' = ds # ys \<and> digits ds \<longrightarrow>
            (digitsValue 10 ds = 0 \<longrightarrow> servings r = JUndefined)
            \<and> (0 < digitsValue 10 ds \<and> digitsValue 10 ds < 2 ^ 53 \<longrightarrow>
                 servings r = JNum (of_nat (digitsValue 10 ds)))
            \<and> (2 ^ 1024 \<le> digitsValue 10 ds \<longrightarrow> servings r = JInfinity False)"
  proof (intro allI impI)
    fix ds ys
    assume a: "extractProp recipeElement ''recipeYield'' = ds # ys \<and> digits ds"
    then have d: "digits ds" by simp
    from 4 a have v: "servings r = (case parseInt ds of
                            NaN \<Rightarrow> JUndefined
                          | Finite n \<Rightarrow> if n = 0 then JUndefined else JNum (of_int n)
                          | Infinity negative \<Rightarrow> JInfinity negative)"
      by blast
    have z: "digitsValue 10 ds = 0 \<longrightarrow> servings r = JUndefined"
      unfolding v by (simp add: parseInt_digits [OF d] toDouble_small)
    have m: "0 < digitsValue 10 ds \<and> digitsValue 10 ds < 2 ^ 53 \<longrightarrow>
                 servings r = JNum (of_nat (digitsValue 10 ds))"
      unfolding v by (simp add: parseInt_digits [OF d] toDouble_small)
    have i: "2 ^ 1024 \<le> digitsValue 10 ds \<longrightarrow> servings r = JInfinity False"
      unfolding v by (simp add: parseInt_digits [OF d] toDouble_overflow)
    from z m i show "(digitsValue 10 ds = 0 \<longrightarrow> servings r = JUndefined)
            \<and> (0 < digitsValue 10 ds \<and> digitsValue 10 ds < 2 ^ 53 \<longrightarrow>
                 servings r = JNum (of_nat (digitsValue 10 ds)))
            \<and> (2 ^ 1024 \<le> digitsValue 10 ds \<longrightarrow> servings r = JInfinity False)"
      by (intro conjI)
  qed
  have 7: "parseInt ''0'' = Finite 0"
    by (simp add: parseInt_def isWhiteSpace_def digitValue_def decDigits_def digitsValue_def
          toDouble_def)
  have 8: "extractNumber (JNum 0) = JNum 0"
    by (simp add: extractNumber_def)
  have 9: "extractNumber (JStr ''0'') = JNum 0"
    by (simp add: extractNumber_def 7)
  from 1 2 3 4 5 6 7 8 9 show ?thesis by (intro conjI)
qed

theorem C10_microdata_servings_witness:
  "(\<exists>r. extractFromMicrodata (yield_page ''0'') = Some r \<and> servings r = JUndefined)
   \<and> (\<exists>r. extractFromMicrodata (yield_page ''a few'') = Some r \<and> servings r = JUndefined)
   \<and> (\<exists>r. extractFromMicrodata (yield_page ''4 servings'') = Some r \<and> servings r = JNum 4)
   \<and> (\<exists>r. extractFromMicrodata (yield_page ''12'') = Some r \<and> servings r = JNum 12)
   \<and> (\<exists>r. extractFromMicrodata both_page = Some r \<and> servings r = JUndefined)"
proof -
  have missing: "\<exists>r. extractFromMicrodata both_page = Some r \<and> servings r = JUndefined"
  proof -
    let ?el = "Element ''Soup'' None (\<lambda>a. None) (page [(''[itemprop=\"name\"]'', [leaf ''Soup''])])"
    have sel: "both_page ''[itemtype*=\"schema.org/Recipe\"]'' = ?el # []"
      by (simp add: both_page_def page_def)
    have ex: "extractProp ?el ''recipeYield'' = []"
      by (simp add: extractProp_def page_def)
    obtain r where r: "extractFromMicrodata both_page = Some r"
      by (simp add: extractFromMicrodata_def sel extractProp_def page_def propText_def leaf_def
            first_def trim_def isWhiteSpace_def)
    from C10_microdata_servings [OF r sel] ex have "servings r = JUndefined"
      by blast
    with r show ?thesis by blast
  qed
  have tr: "trim ''0'' = ''0''" "trim ''a few'' = ''a few''"
    "trim ''4 servings'' = ''4 servings''" "trim ''12'' = ''12''"
    by (simp_all add: trim_def isWhiteSpace_def)
  have p: "parseInt ''4 servings'' = Finite 4"
    by (simp add: parseInt_def isWhiteSpace_def digitValue_def decDigits_def digitsValue_def
          toDouble_def)
  have general: "\<exists>r. extractFromMicrodata (yield_page y) = Some r
          \<and> servings r = (case parseInt y of
                            NaN \<Rightarrow> JUndefined
                          | Finite n \<Rightarrow> if n = 0 then JUndefined else JNum (of_int n)
                          | Infinity negative \<Rightarrow> JInfinity negative)
          \<and> (y \<noteq> [] \<and> \<not> isWhiteSpace (hd y) \<and> \<not> isDigit (hd y)
              \<and> hd y \<noteq> CHR ''+'' \<and> hd y \<noteq> CHR ''-'' \<longrightarrow> servings r = JUndefined)
          \<and> (digits y \<longrightarrow>
               (digitsValue 10 y = 0 \<longrightarrow> servings r = JUndefined)
               \<and> (0 < digitsValue 10 y \<and> digitsValue 10 y < 2 ^ 53 \<longrightarrow>
                    servings r = JNum (of_nat (digitsValue 10 y))))"
    if y: "trim y = y" "y \<noteq> []" for y
  proof -
    from microdata_yield_page [OF y] obtain r others where
      r: "extractFromMicrodata (yield_page y) = Some r"
      and ex: "extractProp (hd (yield_page y ''[itemtype*=\"schema.org/Recipe\"]'')) ''recipeYield'' = [y]"
      and sel: "yield_page y ''[itemtype*=\"schema.org/Recipe\"]''
                = hd (yield_page y ''[itemtype*=\"schema.org/Recipe\"]'') # others"
      by blast
    from C10_microdata_servings [OF r sel] ex
    have "servings r = (case parseInt y of
                            NaN \<Rightarrow> JUndefined
                          | Finite n \<Rightarrow> if n = 0 then JUndefined else JNum (of_int n)
                          | Infinity negative \<Rightarrow> JInfinity negative)
          \<and> (y \<noteq> [] \<and> \<not> isWhiteSpace (hd y) \<and> \<not> isDigit (hd y)
              \<and> hd y \<noteq> CHR ''+'' \<and> hd y \<noteq> CHR ''-'' \<longrightarrow> servings r = JUndefined)
          \<and> (digits y \<longrightarrow>
               (digitsValue 10 y = 0 \<longrightarrow> servings r = JUndefined)
               \<and> (0 < digitsValue 10 y \<and> digitsValue 10 y < 2 ^ 53 \<longrightarrow>
                    servings r = JNum (of_nat (digitsValue 10 y))))"
      by blast
    then show ?thesis by (intro exI [of _ r]) (rule conjI [OF r])
  qed
  have v: "digits ''0''" "digitsValue 10 ''0'' = 0" "digits ''12''" "digitsValue 10 ''12'' = 12"
    by (simp_all add: digits_def isDigit_def digitsValue_def digitValue_def decDigits_def)
  have a: "\<not> isWhiteSpace (hd ''a few'')" "\<not> isDigit (hd ''a few'')"
    by (simp_all add: isWhiteSpace_def isDigit_def)
  from general [of "''0''"] v tr
  have 1: "\<exists>r. extractFromMicrodata (yield_page ''0'') = Some r \<and> servings r = JUndefined"
    by auto
  from general [of "''a few''"] a tr
  have 2: "\<exists>r. extractFromMicrodata (yield_page ''a few'') = Some r \<and> servings r = JUndefined"
    by auto
  from general [of "''4 servings''"] tr p
  have 3: "\<exists>r. extractFromMicrodata (yield_page ''4 servings'') = Some r \<and> servings r = JNum 4"
    by auto
  from general [of "''12''"] v tr
  have 4: "\<exists>r. extractFromMicrodata (yield_page ''12'') = Some r \<and> servings r = JNum 12"
    by auto
  from 1 2 3 4 missing show ?thesis by (intro conjI)
qed

section \<open>C3: the scan of the linked-data blocks\<close>

lemma scan_append:
  "scanJsonLdScripts jp (pre @ post) =
     (case scanJsonLdScripts jp pre of Some r \<Rightarrow> Some r | None \<Rightarrow> scanJsonLdScripts jp post)"
  by (induction pre) (auto split: option.splits)

lemma scan_None_iff:
  "scanJsonLdScripts jp xs = None \<longleftrightarrow> (\<forall>b \<in> set xs. jsonLdScript jp b = None)"
  by (induction xs) (auto split: option.splits)

lemma scan_first:
  "(\<forall>x \<in> set pre. jsonLdScript jp x = None) \<Longrightarrow> jsonLdScript jp b = Some r \<Longrightarrow>
     scanJsonLdScripts jp (pre @ b # post) = Some r"
  by (induction pre) auto

lemma scan_skip:
  "jsonLdScript jp b = None \<Longrightarrow>
     scanJsonLdScripts jp (pre @ b # post) = scanJsonLdScripts jp (pre @ post)"
  by (induction pre) (auto split: option.splits)

lemma jsonLdScript_Some_iff:
  "jsonLdScript jp b = Some r \<longleftrightarrow>
     (\<exists>c v. el_html b = Some c \<and> c \<noteq> [] \<and> jp c = Some v \<and> findRecipeInJsonLd v = Inr (Some r))"
  by (auto simp: jsonLdScript_def split: option.splits sum.splits if_splits)

lemma jsonLdScript_unparseable:
  "el_html b = Some c \<Longrightarrow> jp c = None \<Longrightarrow> jsonLdScript jp b = None"
  by (simp add: jsonLdScript_def)

lemma find_Recipe:
  "propOf v ''@type'' = JStr ''Recipe'' \<Longrightarrow>
     findRecipeInJsonLd v = (case parseJsonLdRecipe v of Inl e \<Rightarrow> Inl e | Inr r \<Rightarrow> Inr (Some r))"
  by (cases v) simp_all

text \<open>
  The parts of the scan that hold for every page: a round whose content \<^verbatim>\<open>JSON.parse\<close>
  rejects returns nothing and the scan goes on; the extractor returns what the first
  round that returns a recipe returns; it returns \<^verbatim>\<open>null\<close> exactly when no round returns
  one; and a round returns a recipe exactly when the content is not empty, parses, and
  the search in the parsed value returns the recipe without throwing.
\<close>

lemma jsonld_scan:
  \<open>(el_html b = Some c \<and> jsonParse c = None \<longrightarrow>
      jsonLdScript jsonParse b = None
      \<and> scanJsonLdScripts jsonParse (pre @ b # post) = scanJsonLdScripts jsonParse (pre @ post))
   \<and> (doc ''script[type="application/ld+json"]'' = pre @ b # post
        \<and> (\<forall>x \<in> set pre. jsonLdScript jsonParse x = None)
        \<and> jsonLdScript jsonParse b = Some r \<longrightarrow>
        extractFromJsonLd jsonParse doc = Some r)
   \<and> (extractFromJsonLd jsonParse doc = None \<longleftrightarrow>
        (\<forall>x \<in> set (doc ''script[type="application/ld+json"]''). jsonLdScript jsonParse x = None))
   \<and> (jsonLdScript jsonParse b = Some r \<longleftrightarrow>
        (\<exists>c v. el_html b = Some c \<and> c \<noteq> [] \<and> jsonParse c = Some v
               \<and> findRecipeInJsonLd v = Inr (Some r)))\<close>
proof -
  define sel where \<open>sel = ''script[type="application/ld+json"]''\<close>
  have 1: "el_html b = Some c \<and> jsonParse c = None \<longrightarrow>
      jsonLdScript jsonParse b = None
      \<and> scanJsonLdScripts jsonParse (pre @ b # post) = scanJsonLdScripts jsonParse (pre @ post)"
    using jsonLdScript_unparseable [of b c jsonParse] scan_skip [of jsonParse b pre post] by blast
  have 2: "doc sel = pre @ b # post \<and> (\<forall>x \<in> set pre. jsonLdScript jsonParse x = None)
        \<and> jsonLdScript jsonParse b = Some r \<longrightarrow>
        extractFromJsonLd jsonParse doc = Some r"
    using scan_first [of pre jsonParse b r post] by (auto simp: extractFromJsonLd_def sel_def)
  have 4: "extractFromJsonLd jsonParse doc = None \<longleftrightarrow>
        (\<forall>x \<in> set (doc sel). jsonLdScript jsonParse x = None)"
    by (simp add: extractFromJsonLd_def sel_def scan_None_iff)
  from 1 2 4 jsonLdScript_Some_iff [of jsonParse b r] show ?thesis
    unfolding sel_def by (intro conjI)
qed

text \<open>
  C3 on the example pages. The parts of the claim that the examples of the
  specification exercise hold: on a page whose first block is \<^verbatim>\<open>{"@type":"WebSite"}\<close> and
  whose second is the recipe of a pie, the pie is returned, and a block that
  \<^verbatim>\<open>JSON.parse\<close> rejects is skipped. The claim fails on two pages. On the page whose first
  block is \<^verbatim>\<open>[null, cake]\<close> and whose second is the pie, the first block holds an object of
  type Recipe, which the search of the specification finds; the code throws on the
  \<^verbatim>\<open>null\<close> in front of it, the \<^verbatim>\<open>catch\<close> written for the parser takes the TypeError, and the
  pie of the second block is returned instead of the cake. On a page whose one block is
  an object of type Recipe with the step \<^verbatim>\<open>{"text": 5}\<close>, the mapping calls \<^verbatim>\<open>replace\<close> on the
  number 5 and throws, the same \<^verbatim>\<open>catch\<close> takes it, and the extractor returns \<^verbatim>\<open>null\<close>
  although a block of type Recipe is there.
\<close>

theorem C3_recipe_block_passed_over:
  \<open>map_option title (extractFromJsonLd example_parse two_block_page) = Some (JStr ''Pie'')
   \<and> map_option ingredients (extractFromJsonLd example_parse two_block_page)
        = Some (JArr [JStr ''apples''])
   \<and> map_option title (extractFromJsonLd example_parse broken_block_page) = Some (JStr ''Pie'')
   \<and> null_then_pie_page ''script[type="application/ld+json"]''
        = [script ''[null,{"@type":"Recipe","name":"Cake"}]'',
           script ''{"@type":"Recipe","name":"Pie","recipeIngredient":["apples"]}'']
   \<and> example_parse ''[null,{"@type":"Recipe","name":"Cake"}]'' = Some (JArr [JNull, cake])
   \<and> map_sum id (map_option title) (spec_findRecipe (JArr [JNull, cake]))
        = Inr (Some (JStr ''Cake''))
   \<and> findRecipeInJsonLd (JArr [JNull, cake]) = Inl TypeError
   \<and> map_option title (extractFromJsonLd example_parse null_then_pie_page) = Some (JStr ''Pie'')
   \<and> stew_page ''script[type="application/ld+json"]''
        = [script ''{"@type":"Recipe","name":"Stew","recipeInstructions":[{"text":5}]}'']
   \<and> example_parse ''{"@type":"Recipe","name":"Stew","recipeInstructions":[{"text":5}]}''
        = Some stew
   \<and> propOf stew ''@type'' = JStr ''Recipe''
   \<and> parseJsonLdRecipe stew = Inl TypeError
   \<and> findRecipeInJsonLd stew = Inl TypeError
   \<and> extractFromJsonLd example_parse stew_page = None\<close>
proof -
  have parse: "parseJsonLdRecipe pie = Inr r \<Longrightarrow> title r = JStr ''Pie''
      \<and> ingredients r = JArr [JStr ''apples'']" for r
    by (auto simp: pie_def parseJsonLdRecipe_def extractText_def extractArray_def)
  obtain r where r: "parseJsonLdRecipe pie = Inr r"
    by (simp add: pie_def parseJsonLdRecipe_def)
  have ty: "propOf pie ''@type'' = JStr ''Recipe''"
    by (simp add: pie_def)
  have fp: "findRecipeInJsonLd pie = Inr (Some r)"
    by (simp add: find_Recipe [OF ty] r)
  have two: "extractFromJsonLd example_parse two_block_page = Some r"
    by (simp add: extractFromJsonLd_def two_block_page_def page_def script_def jsonLdScript_def
          example_parse_def fp)
  have broken: "extractFromJsonLd example_parse broken_block_page = Some r"
    by (simp add: extractFromJsonLd_def broken_block_page_def page_def script_def jsonLdScript_def
          example_parse_def fp)
  have fn: "findRecipeInJsonLd (JArr [JNull, cake]) = Inl TypeError"
    by simp
  have nul: "extractFromJsonLd example_parse null_then_pie_page = Some r"
    by (simp add: extractFromJsonLd_def null_then_pie_page_def page_def script_def
          jsonLdScript_def example_parse_def fp fn)
  have ps: "parseJsonLdRecipe stew = Inl TypeError"
    by (simp add: stew_def parseJsonLdRecipe_def extractArray_def extractText_def
          cleanInstruction_def)
  have tys: "propOf stew ''@type'' = JStr ''Recipe''"
    by (simp add: stew_def)
  have fs: "findRecipeInJsonLd stew = Inl TypeError"
    by (simp add: find_Recipe [OF tys] ps)
  have st: "extractFromJsonLd example_parse stew_page = None"
    by (simp add: extractFromJsonLd_def stew_page_def page_def script_def jsonLdScript_def
          example_parse_def fs)
  have sp: "map_sum id (map_option title) (spec_findRecipe (JArr [JNull, cake]))
        = Inr (Some (JStr ''Cake''))"
    by (simp add: cake_def parseJsonLdRecipe_def extractText_def)
  have d1: \<open>null_then_pie_page ''script[type="application/ld+json"]''
        = [script ''[null,{"@type":"Recipe","name":"Cake"}]'',
           script ''{"@type":"Recipe","name":"Pie","recipeIngredient":["apples"]}'']\<close>
    by (simp add: null_then_pie_page_def page_def)
  have d2: \<open>stew_page ''script[type="application/ld+json"]''
        = [script ''{"@type":"Recipe","name":"Stew","recipeInstructions":[{"text":5}]}'']\<close>
    by (simp add: stew_page_def page_def)
  have e1: \<open>example_parse ''[null,{"@type":"Recipe","name":"Cake"}]'' = Some (JArr [JNull, cake])\<close>
    by (simp add: example_parse_def)
  have e2: \<open>example_parse ''{"@type":"Recipe","name":"Stew","recipeInstructions":[{"text":5}]}''
        = Some stew\<close>
    by (simp add: example_parse_def)
  from parse [OF r] have t: "title r = JStr ''Pie''" and i: "ingredients r = JArr [JStr ''apples'']"
    by simp_all
  show ?thesis
    unfolding two broken nul st option.map t i
    using d1 e1 sp fn d2 e2 tys ps fs by (intro conjI) simp_all
qed

section \<open>C4: the search for the recipe record\<close>

lemma spec_find_falsy: "\<not> truthy v \<Longrightarrow> spec_findRecipe v = Inr None"
  by (cases v) simp_all

text \<open>
  Whenever \<open>findRecipeInJsonLd\<close> returns, it returns what the search of the claim gives.
\<close>

lemma find_meets_spec:
  "findRecipeInJsonLd v = Inr x \<Longrightarrow> spec_findRecipe v = Inr x"
  "findRecipeInItems vs = Inr x \<Longrightarrow> spec_findRecipeInList vs = Inr x"
proof (induction v and vs arbitrary: x and x
    rule: findRecipeInJsonLd_findRecipeInItems.induct
      [case_names Arr Undefined Null Bool Num Infinity Str Obj Nil Cons])
  case (Obj v)
  show ?case
  proof (cases "map_of v ''@type'' = Some (JStr ''Recipe'')")
    case True
    with Obj(2) show ?thesis by (simp split: sum.splits)
  next
    case False
    then have nt: "propOf (JObj v) ''@type'' \<noteq> JStr ''Recipe''"
      by (auto split: option.splits)
    show ?thesis
    proof (cases "map_of v ''@graph''")
      case None
      with False nt Obj(2) show ?thesis by simp
    next
      case (Some g)
      show ?thesis
      proof (cases "truthy g")
        case True
        with Some False nt Obj show ?thesis by simp
      next
        case f: False
        with Some False nt Obj(2) show ?thesis by (simp add: spec_find_falsy)
      qed
    qed
  qed
next
  case (Cons item rest)
  then show ?case by (auto split: sum.splits option.splits)
qed simp_all

text \<open>
  C4 at the value \<^verbatim>\<open>null\<close> and at the list \<^verbatim>\<open>[null, cake]\<close>: the search of the claim gives
  \<^verbatim>\<open>null\<close> for the first and the recipe of the cake for the second; \<open>findRecipeInJsonLd\<close>
  reads \<^verbatim>\<open>data['@type']\<close> of \<^verbatim>\<open>null\<close> and throws a TypeError on both, and the extractor
  finds no recipe on a page whose one block is that list.
\<close>

theorem C4_null_element_throws:
  "findRecipeInJsonLd JNull = Inl TypeError
   \<and> spec_findRecipe JNull = Inr None
   \<and> findRecipeInJsonLd (JArr [JNull, cake]) = Inl TypeError
   \<and> spec_findRecipe (JArr [JNull, cake]) = findRecipeInJsonLd cake
   \<and> findRecipeInJsonLd cake = map_sum id Some (parseJsonLdRecipe cake)
   \<and> map_sum id title (parseJsonLdRecipe cake) = Inr (JStr ''Cake'')
   \<and> extractFromJsonLd example_parse null_first_page = None"
  by (simp add: cake_def parseJsonLdRecipe_def extractFromJsonLd_def null_first_page_def page_def
        script_def jsonLdScript_def example_parse_def extractText_def)

section \<open>The orchestrator on the example pages\<close>

lemma returned_title: "title (returned url r) = title r" "sourceUrl (returned url r) = JStr url"
  by (simp_all add: returned_def)

lemma extractRecipeFromUrl_doc:
  "extractRecipeFromUrl jp url (Inr doc) = extractRecipe jp url doc"
  by (simp add: extractRecipeFromUrl_def extractRecipe_def rethrow_def)

lemma eval_cake: "parseJsonLdRecipe cake =
  Inr \<lparr>title = JStr ''Cake'', description = JStr [], image = JStr [], prepTime = JStr [],
       cookTime = JStr [], totalTime = JStr [], servings = JUndefined, difficulty = JUndefined,
       ingredients = JArr [], instructions = JArr [], sourceUrl = JUndefined, tags = JArr []\<rparr>"
  by (simp add: cake_def parseJsonLdRecipe_def extractText_def extractArray_def extractTime_def
        extractNumber_def js_or_def optChain_def)

lemma jsonld_cake:
  "extractFromJsonLd example_parse cake_page = map_option id (case parseJsonLdRecipe cake of Inr r \<Rightarrow> Some r | Inl e \<Rightarrow> None)"
  "extractFromJsonLd example_parse both_page = map_option id (case parseJsonLdRecipe cake of Inr r \<Rightarrow> Some r | Inl e \<Rightarrow> None)"
  by (simp_all add: eval_cake extractFromJsonLd_def cake_page_def both_page_def page_def script_def
        jsonLdScript_def example_parse_def, simp_all add: cake_def eval_cake [unfolded cake_def])

lemma jsonld_none:
  "extractFromJsonLd jp empty_page = None" "extractFromJsonLd jp (yield_page y) = None"
  "extractFromJsonLd jp selector_page = None"
  by (simp_all add: extractFromJsonLd_def empty_page_def yield_page_def selector_page_def page_def)

lemma microdata_none:
  "extractFromMicrodata empty_page = None" "extractFromMicrodata selector_page = None"
  by (simp_all add: extractFromMicrodata_def empty_page_def selector_page_def page_def)

lemma common_none: "extractFromCommonSelectors empty_page = None"
  by (simp add: extractFromCommonSelectors_def empty_page_def page_def titleSelectors_def)

lemma trim_Soup: "trim ''Soup'' = ''Soup''"
  by (simp add: trim_def isWhiteSpace_def)

lemma microdata_both:
  "\<exists>m. extractFromMicrodata both_page = Some m \<and> title m = JStr ''Soup''"
  by (simp add: extractFromMicrodata_def both_page_def page_def extractProp_def propText_def
        leaf_def first_def trim_Soup)

lemma common_selector_page:
  "\<exists>c. extractFromCommonSelectors selector_page = Some c \<and> title c = JStr ''Pancakes''
      \<and> ingredients c = JArr [JStr ''flour'', JStr ''milk'', JStr ''eggs'']"
proof -
  have tr: "trim '' Pancakes '' = ''Pancakes''" "trim '' flour '' = ''flour''" "trim '' '' = []"
    "trim ''milk'' = ''milk''" "trim ''eggs'' = ''eggs''" "trim ''  '' = []"
    "trim ''Mix'' = ''Mix''" "trim ''Bake'' = ''Bake''" "trim ''Pancakes'' = ''Pancakes''"
    by (simp_all add: trim_def isWhiteSpace_def)
  show ?thesis
    by (simp add: extractFromCommonSelectors_def titleSelectors_def ingredientSelectors_def
          instructionSelectors_def selector_page_def page_def leaf_def textsOf_def tr)
qed

section \<open>C2: the order of the extractors\<close>

text \<open>
  C2: \<^verbatim>\<open>extractRecipeFromUrl\<close> returns the result of the structured-data extractor when it
  has a title; otherwise the result of the microdata extractor when that has a title;
  otherwise the result of the heuristic selector extractor when that has a title;
  otherwise it fails with "No recipe data found on this page". When the page gives a
  titled structured-data result and a microdata result with another title, the title
  returned is the one of the structured data.
\<close>

lemma jsonld_untitled:
  "\<exists>u. extractFromJsonLd example_parse untitled_page = Some u \<and> title u = JStr []"
  by (simp add: extractFromJsonLd_def untitled_page_def page_def script_def jsonLdScript_def
        example_parse_def untitled_def parseJsonLdRecipe_def extractText_def)

lemma microdata_untitled:
  "\<exists>m. extractFromMicrodata untitled_page = Some m \<and> title m = JStr ''Soup''"
  by (simp add: extractFromMicrodata_def untitled_page_def page_def extractProp_def propText_def
        leaf_def first_def trim_Soup)

theorem C2_priority:
  "(extractFromJsonLd jp doc = Some j \<and> truthy (title j) \<longrightarrow>
      extractRecipeFromUrl jp url (Inr doc) = Inr (returned url j))
   \<and> (\<not> usable (extractFromJsonLd jp doc) \<and> extractFromMicrodata doc = Some m \<and> truthy (title m) \<longrightarrow>
      extractRecipeFromUrl jp url (Inr doc) = Inr (returned url m))
   \<and> (\<not> usable (extractFromJsonLd jp doc) \<and> \<not> usable (extractFromMicrodata doc)
        \<and> extractFromCommonSelectors doc = Some c \<and> truthy (title c) \<longrightarrow>
      extractRecipeFromUrl jp url (Inr doc) = Inr (returned url c))
   \<and> (\<not> usable (extractFromJsonLd jp doc) \<and> \<not> usable (extractFromMicrodata doc)
        \<and> \<not> usable (extractFromCommonSelectors doc) \<longrightarrow>
      extractRecipeFromUrl jp url (Inr doc) = Inl (Error ''No recipe data found on this page''))
   \<and> (extractFromJsonLd jp doc = Some j \<and> truthy (title j)
        \<and> extractFromMicrodata doc = Some m \<and> title m \<noteq> title j \<longrightarrow>
      (\<exists>r. extractRecipeFromUrl jp url (Inr doc) = Inr r \<and> title r = title j \<and> title r \<noteq> title m))"
  by (auto simp: extractRecipeFromUrl_doc extractRecipe_def usable_def returned_title)

theorem C2_priority_witness:
  "(\<exists>r. extractRecipeFromUrl example_parse ''https://example.org/r'' (Inr both_page) = Inr r
        \<and> title r = JStr ''Cake'')
   \<and> (\<exists>r. extractRecipeFromUrl example_parse ''https://example.org/r'' (Inr (yield_page ''4'')) = Inr r
        \<and> title r = JStr ''Soup'')
   \<and> (\<exists>r. extractRecipeFromUrl example_parse ''https://example.org/r'' (Inr selector_page) = Inr r
        \<and> title r = JStr ''Pancakes'')
   \<and> (\<exists>r. extractRecipeFromUrl example_parse ''https://example.org/r'' (Inr untitled_page) = Inr r
        \<and> title r = JStr ''Soup'')
   \<and> extractRecipeFromUrl example_parse ''https://example.org/r'' (Inr empty_page)
        = Inl (Error ''No recipe data found on this page'')"
proof -
  let ?url = "''https://example.org/r''"
  obtain u where u: "extractFromJsonLd example_parse untitled_page = Some u" "title u = JStr []"
    using jsonld_untitled by blast
  obtain n where n: "extractFromMicrodata untitled_page = Some n" "title n = JStr ''Soup''"
    using microdata_untitled by blast
  from C2_priority [of example_parse untitled_page _ ?url n] u n
  have 5: "\<exists>r. extractRecipeFromUrl example_parse ?url (Inr untitled_page) = Inr r
             \<and> title r = JStr ''Soup''"
    by (simp add: usable_def returned_title)
  obtain j where j: "extractFromJsonLd example_parse both_page = Some j" "title j = JStr ''Cake''"
    by (simp add: jsonld_cake eval_cake)
  obtain m where m: "extractFromMicrodata both_page = Some m" "title m = JStr ''Soup''"
    using microdata_both by blast
  from C2_priority [of example_parse both_page j ?url m] j m
  have 1: "\<exists>r. extractRecipeFromUrl example_parse ?url (Inr both_page) = Inr r \<and> title r = JStr ''Cake''"
    by (auto simp: returned_title)
  obtain s where s: "extractFromMicrodata (yield_page ''4'') = Some s" "title s = JStr ''Soup''"
    by (simp add: extractFromMicrodata_def yield_page_def page_def extractProp_def propText_def
          leaf_def first_def trim_Soup)
  from C2_priority [of example_parse "yield_page ''4''" _ ?url s] s
  have 2: "\<exists>r. extractRecipeFromUrl example_parse ?url (Inr (yield_page ''4'')) = Inr r
             \<and> title r = JStr ''Soup''"
    by (simp add: jsonld_none usable_def returned_title)
  obtain c where c: "extractFromCommonSelectors selector_page = Some c" "title c = JStr ''Pancakes''"
    using common_selector_page by blast
  from C2_priority [of example_parse selector_page _ ?url _ c] c
  have 3: "\<exists>r. extractRecipeFromUrl example_parse ?url (Inr selector_page) = Inr r
             \<and> title r = JStr ''Pancakes''"
    by (simp add: jsonld_none microdata_none usable_def returned_title)
  from C2_priority [of example_parse empty_page _ ?url]
  have 4: "extractRecipeFromUrl example_parse ?url (Inr empty_page)
             = Inl (Error ''No recipe data found on this page'')"
    by (simp add: jsonld_none microdata_none common_none usable_def)
  from 1 2 3 4 5 show ?thesis by blast
qed

section \<open>C1: what a successful result holds\<close>

lemma microdata_titled:
  assumes "extractFromMicrodata doc = Some m"
  shows "truthy (title m)"
  using assms by (auto simp: extractFromMicrodata_def split: list.splits if_splits)

lemma common_lists:
  assumes "extractFromCommonSelectors doc = Some c"
  shows "\<exists>xs ys. ingredients c = JArr xs \<and> instructions c = JArr ys \<and> (xs \<noteq> [] \<or> ys \<noteq> [])"
  using common_Some [OF assms] by auto

lemma returned_lists:
  "ingredients r = JArr xs \<Longrightarrow> ingredients (returned url r) = JArr xs"
  "instructions r = JArr ys \<Longrightarrow> instructions (returned url r) = JArr ys"
  by (simp_all add: returned_def js_or_def)

text \<open>
  The claim C1 as the specification states it fails on the code: for a page whose
  linked-data recipe has a name and nothing else, \<^verbatim>\<open>extractRecipeFromUrl\<close> returns a recipe
  with the title Cake, no ingredient and no instruction.
\<close>

theorem C1_empty_lists_counterexample:
  "map_sum id title (extractRecipeFromUrl example_parse ''https://example.org/r'' (Inr cake_page))
     = Inr (JStr ''Cake'')
   \<and> map_sum id ingredients (extractRecipeFromUrl example_parse ''https://example.org/r'' (Inr cake_page))
     = Inr (JArr [])
   \<and> map_sum id instructions (extractRecipeFromUrl example_parse ''https://example.org/r'' (Inr cake_page))
     = Inr (JArr [])"
  by (simp add: extractRecipeFromUrl_doc extractRecipe_def jsonld_cake eval_cake usable_def
        returned_def js_or_def)

text \<open>
  C1, amended: for every fetched and parsed page \<^verbatim>\<open>extractRecipeFromUrl\<close> returns a recipe
  whose title is truthy (not empty when it is a string) and whose source is the URL, or
  fails with "No recipe data found on this page" and returns no recipe. The extractors
  are asked in order. A structured-data result with a truthy title is returned, also
  when its ingredients and its instructions are both empty. A structured-data result
  without a truthy title is rejected, as is no result; then a microdata result, which
  always has a title, is returned, also when both of its lists are empty. When there is
  no microdata result either, a result of the heuristic selector extractor is returned,
  and it has an ingredient or an instruction. When no extractor gives a result, the call
  fails. What is returned for the result of an extractor has its title and the URL.
\<close>

theorem C1_result_or_failure:
  "((\<exists>r. extractRecipeFromUrl jp url (Inr doc) = Inr r \<and> truthy (title r)
          \<and> (\<forall>s. title r = JStr s \<longrightarrow> s \<noteq> []) \<and> sourceUrl r = JStr url)
      \<or> extractRecipeFromUrl jp url (Inr doc) = Inl (Error ''No recipe data found on this page''))
   \<and> (usable (extractFromJsonLd jp doc)
        \<longleftrightarrow> (\<exists>j'. extractFromJsonLd jp doc = Some j' \<and> truthy (title j')))
   \<and> (extractFromJsonLd jp doc = Some j \<and> truthy (title j) \<longrightarrow>
        extractRecipeFromUrl jp url (Inr doc) = Inr (returned url j))
   \<and> (extractFromJsonLd jp doc = Some j \<and> truthy (title j)
        \<and> ingredients j = JArr [] \<and> instructions j = JArr [] \<longrightarrow>
        (\<exists>r. extractRecipeFromUrl jp url (Inr doc) = Inr r \<and> title r = title j
            \<and> ingredients r = JArr [] \<and> instructions r = JArr []))
   \<and> (extractFromJsonLd jp doc = Some j \<and> \<not> truthy (title j) \<longrightarrow>
        \<not> usable (extractFromJsonLd jp doc)
        \<and> extractRecipeFromUrl jp url (Inr doc) \<noteq> Inr (returned url j))
   \<and> (\<not> usable (extractFromJsonLd jp doc) \<and> extractFromMicrodata doc = Some m \<longrightarrow>
        truthy (title m) \<and> extractRecipeFromUrl jp url (Inr doc) = Inr (returned url m))
   \<and> (\<not> usable (extractFromJsonLd jp doc) \<and> extractFromMicrodata doc = Some m
        \<and> ingredients m = JArr [] \<and> instructions m = JArr [] \<longrightarrow>
        (\<exists>r. extractRecipeFromUrl jp url (Inr doc) = Inr r \<and> title r = title m
            \<and> ingredients r = JArr [] \<and> instructions r = JArr []))
   \<and> (\<not> usable (extractFromJsonLd jp doc) \<and> extractFromMicrodata doc = None
        \<and> extractFromCommonSelectors doc = Some c \<longrightarrow>
        truthy (title c) \<and> extractRecipeFromUrl jp url (Inr doc) = Inr (returned url c)
        \<and> (\<exists>xs ys. ingredients (returned url c) = JArr xs \<and> instructions (returned url c) = JArr ys
              \<and> (xs \<noteq> [] \<or> ys \<noteq> [])))
   \<and> (\<not> usable (extractFromJsonLd jp doc) \<and> extractFromMicrodata doc = None
        \<and> extractFromCommonSelectors doc = None \<longrightarrow>
        extractRecipeFromUrl jp url (Inr doc) = Inl (Error ''No recipe data found on this page''))
   \<and> (extractRecipeFromUrl jp url (Inr doc) = Inr r
        \<and> \<not> usable (extractFromJsonLd jp doc) \<and> \<not> usable (extractFromMicrodata doc) \<longrightarrow>
        ingredients r \<noteq> JArr [] \<or> instructions r \<noteq> JArr [])
   \<and> (\<not> usable (extractFromJsonLd jp doc) \<and> \<not> usable (extractFromMicrodata doc)
        \<and> \<not> usable (extractFromCommonSelectors doc) \<longrightarrow>
        extractRecipeFromUrl jp url (Inr doc) = Inl (Error ''No recipe data found on this page''))
   \<and> title (returned url x) = title x \<and> sourceUrl (returned url x) = JStr url"
proof -
  let ?res = "extractRecipeFromUrl jp url (Inr doc)"
  let ?J = "extractFromJsonLd jp doc"
  let ?M = "extractFromMicrodata doc"
  let ?S = "extractFromCommonSelectors doc"
  let ?fail = "Inl (Error ''No recipe data found on this page'') :: js_error + ScrapedRecipe"
  have res: "?res = extractRecipe jp url doc"
    by (rule extractRecipeFromUrl_doc)
  have css: "ingredients (returned url c) \<noteq> JArr [] \<or> instructions (returned url c) \<noteq> JArr []"
    if "?S = Some c" for c
    using common_Some [OF that] by (auto simp: returned_def js_or_def)
  have uM: "usable ?M \<longleftrightarrow> ?M \<noteq> None"
    using microdata_titled [of doc] by (auto simp: usable_def split: option.splits)
  have uS: "usable ?S \<longleftrightarrow> ?S \<noteq> None"
    using common_Some [of doc] by (auto simp: usable_def split: option.splits)
  have 1: "(\<exists>r. ?res = Inr r \<and> truthy (title r) \<and> (\<forall>s. title r = JStr s \<longrightarrow> s \<noteq> [])
              \<and> sourceUrl r = JStr url)
      \<or> ?res = ?fail"
    unfolding res
    by (auto simp: extractRecipe_def usable_def returned_title split: option.splits)
  have 2: "usable ?J \<longleftrightarrow> (\<exists>j'. ?J = Some j' \<and> truthy (title j'))"
    by (auto simp: usable_def split: option.splits)
  have 3: "?J = Some j \<and> truthy (title j) \<longrightarrow> ?res = Inr (returned url j)"
    unfolding res by (simp add: extractRecipe_def usable_def)
  have 4: "?J = Some j \<and> truthy (title j) \<and> ingredients j = JArr [] \<and> instructions j = JArr [] \<longrightarrow>
        (\<exists>r. ?res = Inr r \<and> title r = title j \<and> ingredients r = JArr [] \<and> instructions r = JArr [])"
    using 3 by (auto simp: returned_title returned_lists)
  have 6: "\<not> usable ?J \<and> ?M = Some m \<longrightarrow> truthy (title m) \<and> ?res = Inr (returned url m)"
    unfolding res using microdata_titled [of doc m]
    by (auto simp: extractRecipe_def usable_def)
  have 7: "\<not> usable ?J \<and> ?M = Some m \<and> ingredients m = JArr [] \<and> instructions m = JArr [] \<longrightarrow>
        (\<exists>r. ?res = Inr r \<and> title r = title m \<and> ingredients r = JArr [] \<and> instructions r = JArr [])"
    using 6 by (auto simp: returned_title returned_lists)
  have 8: "\<not> usable ?J \<and> ?M = None \<and> ?S = Some c \<longrightarrow>
        truthy (title c) \<and> ?res = Inr (returned url c)
        \<and> (\<exists>xs ys. ingredients (returned url c) = JArr xs \<and> instructions (returned url c) = JArr ys
              \<and> (xs \<noteq> [] \<or> ys \<noteq> []))"
  proof (rule impI)
    assume a: "\<not> usable ?J \<and> ?M = None \<and> ?S = Some c"
    then have S: "?S = Some c" by simp
    from common_Some [OF S] have t: "truthy (title c)" by simp
    from a t have r: "?res = Inr (returned url c)"
      unfolding res by (simp add: extractRecipe_def usable_def)
    from common_lists [OF S] obtain xs ys where
      l: "ingredients c = JArr xs" "instructions c = JArr ys" "xs \<noteq> [] \<or> ys \<noteq> []"
      by blast
    from returned_lists(1) [OF l(1)] returned_lists(2) [OF l(2)] l(3)
    have "\<exists>xs ys. ingredients (returned url c) = JArr xs \<and> instructions (returned url c) = JArr ys
              \<and> (xs \<noteq> [] \<or> ys \<noteq> [])"
      by blast
    with t r show "truthy (title c) \<and> ?res = Inr (returned url c)
        \<and> (\<exists>xs ys. ingredients (returned url c) = JArr xs \<and> instructions (returned url c) = JArr ys
              \<and> (xs \<noteq> [] \<or> ys \<noteq> []))"
      by (intro conjI)
  qed
  have 9: "\<not> usable ?J \<and> ?M = None \<and> ?S = None \<longrightarrow> ?res = ?fail"
    unfolding res by (simp add: extractRecipe_def usable_def)
  have 10: "?res = Inr r \<and> \<not> usable ?J \<and> \<not> usable ?M \<longrightarrow>
        ingredients r \<noteq> JArr [] \<or> instructions r \<noteq> JArr []"
    using css unfolding res
    by (auto simp: extractRecipe_def usable_def split: option.splits if_splits)
  have 11: "\<not> usable ?J \<and> \<not> usable ?M \<and> \<not> usable ?S \<longrightarrow> ?res = ?fail"
    unfolding res by (simp add: extractRecipe_def)
  have 5: "?J = Some j \<and> \<not> truthy (title j) \<longrightarrow>
        \<not> usable ?J \<and> ?res \<noteq> Inr (returned url j)"
  proof (intro impI conjI notI)
    assume a: "?J = Some j \<and> \<not> truthy (title j)"
    then show "usable ?J \<Longrightarrow> False" by (simp add: usable_def)
    assume b: "?res = Inr (returned url j)"
    from 1 b have "truthy (title (returned url j))" by auto
    with a show False by (simp add: returned_title)
  qed
  have 12: "title (returned url x) = title x" and 13: "sourceUrl (returned url x) = JStr url"
    by (simp_all add: returned_title)
  from 1 2 3 4 5 6 7 8 9 10 11 12 13 show ?thesis by (intro conjI)
qed

theorem C1_result_or_failure_witness:
  "(\<exists>r. extractRecipeFromUrl example_parse ''https://example.org/r'' (Inr cake_page) = Inr r
        \<and> title r = JStr ''Cake'' \<and> ingredients r = JArr [] \<and> instructions r = JArr [])
   \<and> (\<exists>r. extractRecipeFromUrl example_parse ''https://example.org/r'' (Inr selector_page) = Inr r
        \<and> ingredients r = JArr [JStr ''flour'', JStr ''milk'', JStr ''eggs''])
   \<and> extractRecipeFromUrl example_parse ''https://example.org/r'' (Inr empty_page)
        = Inl (Error ''No recipe data found on this page'')
   \<and> (\<exists>u. extractFromJsonLd example_parse untitled_page = Some u
        \<and> extractRecipeFromUrl example_parse ''https://example.org/r'' (Inr untitled_page)
            \<noteq> Inr (returned ''https://example.org/r'' u))
   \<and> (\<exists>r. extractRecipeFromUrl example_parse ''https://example.org/r'' (Inr untitled_page) = Inr r
        \<and> title r = JStr ''Soup'' \<and> ingredients r = JArr [] \<and> instructions r = JArr [])"
proof -
  let ?url = "''https://example.org/r''"
  obtain u where u: "extractFromJsonLd example_parse untitled_page = Some u" "title u = JStr []"
    using jsonld_untitled by blast
  note tu = C1_result_or_failure [of example_parse ?url untitled_page u]
  have fu: "\<not> truthy (title u)"
    by (simp add: u(2))
  from tu u(1) fu
  have 4: "\<exists>u. extractFromJsonLd example_parse untitled_page = Some u
        \<and> extractRecipeFromUrl example_parse ?url (Inr untitled_page) \<noteq> Inr (returned ?url u)"
    by blast
  from tu u(1) fu have nu: "\<not> usable (extractFromJsonLd example_parse untitled_page)"
    by blast
  obtain m where m: "extractFromMicrodata untitled_page = Some m" "title m = JStr ''Soup''"
    "ingredients m = JArr []" "instructions m = JArr []"
    by (simp add: extractFromMicrodata_def untitled_page_def page_def extractProp_def propText_def
        leaf_def first_def trim_Soup)
  from C1_result_or_failure [of example_parse ?url untitled_page _ m] nu m(1,3,4)
  have "\<exists>r. extractRecipeFromUrl example_parse ?url (Inr untitled_page) = Inr r
        \<and> title r = title m \<and> ingredients r = JArr [] \<and> instructions r = JArr []"
    by blast
  then have 5: "\<exists>r. extractRecipeFromUrl example_parse ?url (Inr untitled_page) = Inr r
        \<and> title r = JStr ''Soup'' \<and> ingredients r = JArr [] \<and> instructions r = JArr []"
    by (simp only: m(2))
  obtain j where j: "extractFromJsonLd example_parse cake_page = Some j" "title j = JStr ''Cake''"
    "ingredients j = JArr []" "instructions j = JArr []"
    by (simp add: jsonld_cake eval_cake)
  have tj: "truthy (title j)"
    by (simp add: j(2))
  from C1_result_or_failure [of example_parse ?url cake_page j] j(1,3,4) tj
  have "\<exists>r. extractRecipeFromUrl example_parse ?url (Inr cake_page) = Inr r
        \<and> title r = title j \<and> ingredients r = JArr [] \<and> instructions r = JArr []"
    by blast
  then have 1: "\<exists>r. extractRecipeFromUrl example_parse ?url (Inr cake_page) = Inr r
        \<and> title r = JStr ''Cake'' \<and> ingredients r = JArr [] \<and> instructions r = JArr []"
    by (simp only: j(2))
  obtain c where c: "extractFromCommonSelectors selector_page = Some c"
    "title c = JStr ''Pancakes''" "ingredients c = JArr [JStr ''flour'', JStr ''milk'', JStr ''eggs'']"
    using common_selector_page by blast
  have ns: "\<not> usable (extractFromJsonLd example_parse selector_page)"
    "extractFromMicrodata selector_page = None"
    by (simp_all add: jsonld_none microdata_none usable_def)
  from C1_result_or_failure [of example_parse ?url selector_page _ _ c] ns c(1)
  have run: "extractRecipeFromUrl example_parse ?url (Inr selector_page) = Inr (returned ?url c)"
    by blast
  with c have 2: "\<exists>r. extractRecipeFromUrl example_parse ?url (Inr selector_page) = Inr r
        \<and> ingredients r = JArr [JStr ''flour'', JStr ''milk'', JStr ''eggs'']"
    by (simp add: returned_lists)
  have ne: "\<not> usable (extractFromJsonLd example_parse empty_page)"
    "extractFromMicrodata empty_page = None" "extractFromCommonSelectors empty_page = None"
    by (simp_all add: jsonld_none microdata_none common_none usable_def)
  from C1_result_or_failure [of example_parse ?url empty_page] ne
  have 3: "extractRecipeFromUrl example_parse ?url (Inr empty_page)
             = Inl (Error ''No recipe data found on this page'')"
    by blast
  from 1 2 3 4 5 show ?thesis by (intro conjI)
qed

section \<open>C9: the compiled twin\<close>

lemma lib_extractText_eq: "lib_extractText = extractText"
  apply (intro ext)
  unfolding lib_extractText_def extractText_def
  apply (rule refl)
  done

lemma lib_extractArray_eq: "lib_extractArray = extractArray"
  apply (intro ext)
  unfolding lib_extractArray_def extractArray_def lib_extractText_eq
  apply (rule refl)
  done

lemma lib_extractTime_eq: "lib_extractTime = extractTime"
  apply (intro ext)
  unfolding lib_extractTime_def extractTime_def lib_extractText_eq
  apply (rule refl)
  done

lemma lib_extractNumber_eq: "lib_extractNumber = extractNumber"
  apply (intro ext)
  unfolding lib_extractNumber_def extractNumber_def
  apply (rule refl)
  done

lemma lib_cleanInstruction_eq: "lib_cleanInstruction = cleanInstruction"
  apply (intro ext)
  unfolding lib_cleanInstruction_def cleanInstruction_def
  apply (rule refl)
  done

lemma lib_mapInstructions_eq: "lib_mapInstructions = mapInstructions"
proof
  fix xs
  show "lib_mapInstructions xs = mapInstructions xs"
    by (induction xs) (simp_all add: lib_cleanInstruction_eq cong: sum.case_cong)
qed

lemma lib_imageUrl_eq: "lib_imageUrl recipe = optChain (propOf recipe ''image'') ''url''"
  by (cases "propOf recipe ''image''") (simp_all add: lib_imageUrl_def optChain_def)

lemma lib_parseJsonLdRecipe_eq: "lib_parseJsonLdRecipe = parseJsonLdRecipe"
  apply (intro ext)
  unfolding lib_parseJsonLdRecipe_def parseJsonLdRecipe_def lib_extractText_eq
    lib_extractArray_eq lib_extractTime_eq lib_extractNumber_eq lib_mapInstructions_eq lib_imageUrl_eq
  apply (rule refl)
  done

lemma lib_findRecipe_eq:
  "lib_findRecipeInJsonLd v = findRecipeInJsonLd v"
  "lib_findRecipeInItems vs = findRecipeInItems vs"
  by (induction v and vs rule: findRecipeInJsonLd_findRecipeInItems.induct)
     (simp_all add: lib_parseJsonLdRecipe_eq cong: sum.case_cong option.case_cong)

lemma lib_jsonLdScript_eq: "lib_jsonLdScript = jsonLdScript"
  apply (intro ext)
  unfolding lib_jsonLdScript_def jsonLdScript_def lib_findRecipe_eq
  apply (rule refl)
  done

lemma lib_scan_eq: "lib_scanJsonLdScripts jp xs = scanJsonLdScripts jp xs"
  by (induction xs) (simp_all add: lib_jsonLdScript_eq cong: option.case_cong)

lemma lib_extractFromJsonLd_eq: "lib_extractFromJsonLd = extractFromJsonLd"
  apply (intro ext)
  unfolding lib_extractFromJsonLd_def extractFromJsonLd_def lib_scan_eq
  apply (rule refl)
  done

lemma lib_propText_eq: "lib_propText = propText"
  apply (intro ext)
  unfolding lib_propText_def propText_def
  apply (rule refl)
  done

lemma lib_extractProp_eq: "lib_extractProp = extractProp"
  apply (intro ext)
  unfolding lib_extractProp_def extractProp_def lib_propText_eq
  apply (rule refl)
  done

lemma lib_extractFromMicrodata_eq: "lib_extractFromMicrodata = extractFromMicrodata"
  apply (intro ext)
  unfolding lib_extractFromMicrodata_def extractFromMicrodata_def lib_extractProp_eq
  apply (rule refl)
  done

lemma lib_findText_eq: "lib_findTextBySelectors doc sels = findTextBySelectors doc sels"
  by (induction sels) (simp_all split: list.splits)

lemma lib_textsOf_eq: "lib_textsOf = textsOf"
  apply (intro ext)
  unfolding lib_textsOf_def textsOf_def
  apply (rule refl)
  done

lemma lib_findMultiple_eq:
  "lib_findMultipleTextBySelectors doc sels = findMultipleTextBySelectors doc sels"
  by (induction sels) (simp_all add: lib_textsOf_eq)

lemma lib_selectors_eq:
  "lib_titleSelectors = titleSelectors" "lib_ingredientSelectors = ingredientSelectors"
  "lib_instructionSelectors = instructionSelectors"
  unfolding lib_titleSelectors_def titleSelectors_def lib_ingredientSelectors_def
    ingredientSelectors_def lib_instructionSelectors_def instructionSelectors_def
  by (rule refl)+

lemma lib_extractFromCommonSelectors_eq: "lib_extractFromCommonSelectors = extractFromCommonSelectors"
  apply (intro ext)
  unfolding lib_extractFromCommonSelectors_def extractFromCommonSelectors_def lib_findText_eq
    lib_findMultiple_eq lib_selectors_eq
  apply (rule refl)
  done

lemma lib_rethrow_eq: "lib_rethrow = rethrow"
proof
  fix e
  show "lib_rethrow e = rethrow e"
  proof (cases e)
    case (AxiosError code response)
    then show ?thesis
      by (cases response) (simp_all add: lib_rethrow_def rethrow_def)
  qed (simp_all add: lib_rethrow_def rethrow_def)
qed

lemma lib_returned_eq: "lib_returned = returned"
  apply (intro ext)
  unfolding lib_returned_def returned_def
  apply (rule refl)
  done

lemma lib_usable_eq: "lib_usable = usable"
  apply (intro ext)
  unfolding lib_usable_def usable_def
  apply (rule refl)
  done

lemma lib_extractRecipe_eq: "lib_extractRecipe = extractRecipe"
  apply (intro ext)
  unfolding lib_extractRecipe_def extractRecipe_def lib_extractFromJsonLd_eq
    lib_extractFromMicrodata_eq lib_extractFromCommonSelectors_eq lib_returned_eq lib_usable_eq
  apply (rule refl)
  done

lemma lib_extractRecipeFromUrl_eq: "lib_extractRecipeFromUrl = extractRecipeFromUrl"
  apply (intro ext)
  unfolding lib_extractRecipeFromUrl_def extractRecipeFromUrl_def lib_extractRecipe_eq
    lib_rethrow_eq
  apply (rule refl)
  done

text \<open>
  C9: every function of the compiled file \<^verbatim>\<open>functions/lib/index.js\<close> computes what the
  function of the same name in \<^verbatim>\<open>functions/src/index.ts\<close> computes, on every input: the
  orchestrator with its handling of the request's failures, the three extractors and
  their helpers.
\<close>

theorem C9_compiled_twin:
  "lib_extractRecipeFromUrl = extractRecipeFromUrl
   \<and> lib_extractFromJsonLd = extractFromJsonLd
   \<and> lib_findRecipeInJsonLd = findRecipeInJsonLd
   \<and> lib_parseJsonLdRecipe = parseJsonLdRecipe
   \<and> lib_extractText = extractText
   \<and> lib_extractArray = extractArray
   \<and> lib_extractTime = extractTime
   \<and> lib_extractNumber = extractNumber
   \<and> lib_extractFromMicrodata = extractFromMicrodata
   \<and> lib_extractProp = extractProp
   \<and> lib_extractFromCommonSelectors = extractFromCommonSelectors
   \<and> lib_findTextBySelectors = findTextBySelectors
   \<and> lib_findMultipleTextBySelectors = findMultipleTextBySelectors"
proof -
  have "lib_findRecipeInJsonLd = findRecipeInJsonLd"
    by (rule ext) (rule lib_findRecipe_eq)
  moreover have "lib_findTextBySelectors = findTextBySelectors"
    by (intro ext) (rule lib_findText_eq)
  moreover have "lib_findMultipleTextBySelectors = findMultipleTextBySelectors"
    by (intro ext) (rule lib_findMultiple_eq)
  ultimately show ?thesis
    using lib_extractRecipeFromUrl_eq lib_extractFromJsonLd_eq lib_parseJsonLdRecipe_eq
      lib_extractText_eq lib_extractArray_eq lib_extractTime_eq lib_extractNumber_eq
      lib_extractFromMicrodata_eq lib_extractProp_eq lib_extractFromCommonSelectors_eq
    by (simp only: simp_thms)
qed

theorem C9_compiled_twin_witness:
  "(\<exists>r. lib_extractRecipeFromUrl example_parse ''https://example.org/r'' (Inr cake_page) = Inr r
        \<and> title r = JStr ''Cake'')
   \<and> lib_extractRecipeFromUrl example_parse ''https://example.org/r''
        (Inl (AxiosError None (Some 404))) = Inl (Error ''Recipe page not found'')
   \<and> lib_extractTime (JStr ''PT1H15M'') = JStr ''1h 15min''"
proof -
  have 1: "\<exists>r. extractRecipeFromUrl example_parse ''https://example.org/r'' (Inr cake_page) = Inr r
        \<and> title r = JStr ''Cake''"
    by (simp add: extractRecipeFromUrl_doc extractRecipe_def jsonld_cake eval_cake usable_def
          returned_def)
  have 2: "extractRecipeFromUrl example_parse ''https://example.org/r''
        (Inl (AxiosError None (Some 404))) = Inl (Error ''Recipe page not found'')"
    by (simp add: extractRecipeFromUrl_def rethrow_def)
  have 3: "extractTime (JStr ''PT1H15M'') = JStr ''1h 15min''"
    by (simp add: eval_defs)
  from 1 2 3 show ?thesis
    using C9_compiled_twin by simp
qed

end
